theory Spec2Isabelle
  imports Complex_Main "HOL-Library.AList"
begin

section \<open>Environment manager (app/core/env_manager.py)\<close>

text \<open>
  Python floats are modelled as reals and \<open>datetime\<close> values as integers counting
  microseconds, the resolution of \<open>datetime\<close> and \<open>timedelta\<close>. The wall clock
  \<open>datetime.now()\<close> is an argument \<open>now\<close> of every function that reads it, and
  the answer of the file system an argument \<open>disk\<close> of every function that writes the
  configuration file.
\<close>

datatype Environment = TESTNET | MAINNET

record EnvironmentSettings =
  environment :: Environment
  auto_switch_enabled :: bool
  testnet_duration_hours :: int
  min_trades_for_switch :: int
  max_drawdown_pct_for_switch :: real
  config_path :: string

text \<open>The dictionary that \<open>_save_config\<close> dumps to the YAML file.\<close>

record saved_config =
  sc_environment :: Environment
  sc_auto_switch_enabled :: bool
  sc_testnet_duration_hours :: int
  sc_min_trades_for_switch :: int
  sc_max_drawdown_pct_for_switch :: real

text \<open>
  The manager's attributes, together with what it writes outside itself: the module-level
  Prometheus metrics \<open>ENV_SWITCH_TOTAL\<close> (a counter) and \<open>CURRENT_ENV\<close> (a gauge), and
  the sequence of dictionaries that \<open>_save_config\<close> has written to the
  configuration file.
\<close>

record EnvironmentManager =
  settings :: EnvironmentSettings
  start_time :: int
  last_switch_time :: int
  trade_count :: int
  peak_equity :: real
  current_equity :: real
  max_drawdown_pct :: real
  ENV_SWITCH_TOTAL :: nat
  CURRENT_ENV :: int
  config_writes :: "saved_config list"

definition timedelta_hours :: "int \<Rightarrow> int" where
  "timedelta_hours h = h * 3600000000"

definition get_environment :: "EnvironmentManager \<Rightarrow> Environment" where
  "get_environment m = environment (settings m)"

text \<open>
  \<open>os.path.dirname\<close> (POSIX): the part of the path up to its last slash, without
  trailing slashes unless it consists of slashes only; empty when the path has no slash.
\<close>

definition dirname :: "string \<Rightarrow> string" where
  "dirname p =
     (let head = rev (dropWhile (\<lambda>c. c \<noteq> CHR ''/'') (rev p))
      in if head \<noteq> [] \<and> filter (\<lambda>c. c \<noteq> CHR ''/'') head \<noteq> []
         then rev (dropWhile (\<lambda>c. c = CHR ''/'') (rev head))
         else head)"

text \<open>The dictionary \<open>config\<close> that \<open>_save_config\<close> builds from the settings.\<close>

definition config_dump :: "EnvironmentManager \<Rightarrow> saved_config" where
  "config_dump m =
     \<lparr>sc_environment = environment (settings m),
      sc_auto_switch_enabled = auto_switch_enabled (settings m),
      sc_testnet_duration_hours = testnet_duration_hours (settings m),
      sc_min_trades_for_switch = min_trades_for_switch (settings m),
      sc_max_drawdown_pct_for_switch = max_drawdown_pct_for_switch (settings m)\<rparr>"

text \<open>
  \<open>_save_config\<close> runs \<open>os.makedirs(os.path.dirname(config_path), exist_ok=True)\<close>,
  \<open>open\<close> and \<open>yaml.dump\<close> inside \<open>try\<close>, and logs any exception: a failure
  writes nothing and is not seen by the caller. \<open>os.makedirs('')\<close> raises, so a path
  without a directory part never gets written. \<open>disk\<close> says whether the file system
  lets the three calls complete.
\<close>

definition save_config :: "bool \<Rightarrow> EnvironmentManager \<Rightarrow> EnvironmentManager" where
  "save_config disk m =
     (if dirname (config_path (settings m)) = [] then m
      else if \<not> disk then m
      else m\<lparr>config_writes := config_writes m @ [config_dump m]\<rparr>)"

text \<open>
  \<open>set_environment(environment, save)\<close> returns nothing. Its first test, membership of
  the argument in \<open>[TESTNET, MAINNET]\<close>, holds for every value of the enumeration.
\<close>

definition set_environment ::
  "int \<Rightarrow> bool \<Rightarrow> Environment \<Rightarrow> bool \<Rightarrow> EnvironmentManager \<Rightarrow> EnvironmentManager" where
  "set_environment now disk env save m =
     (let m1 = m\<lparr>settings := (settings m)\<lparr>environment := env\<rparr>\<rparr>;
          m2 = m1\<lparr>last_switch_time := now\<rparr>;
          m3 = m2\<lparr>ENV_SWITCH_TOTAL := ENV_SWITCH_TOTAL m2 + 1\<rparr>;
          m4 = m3\<lparr>CURRENT_ENV := (if env = MAINNET then 1 else 0)\<rparr>
      in if save then save_config disk m4 else m4)"

definition env_update_performance_metrics ::
  "real \<Rightarrow> int \<Rightarrow> real \<Rightarrow> EnvironmentManager \<Rightarrow> EnvironmentManager" where
  "env_update_performance_metrics equity trades dd m =
     (let m1 = m\<lparr>current_equity := equity, trade_count := trades, max_drawdown_pct := dd\<rparr>
      in if equity > peak_equity m1 then m1\<lparr>peak_equity := equity\<rparr> else m1)"

definition should_switch_to_mainnet :: "int \<Rightarrow> EnvironmentManager \<Rightarrow> bool" where
  "should_switch_to_mainnet now m =
     (if environment (settings m) \<noteq> TESTNET \<or> \<not> auto_switch_enabled (settings m) then False
      else if now - start_time m < timedelta_hours (testnet_duration_hours (settings m)) then False
      else if trade_count m < min_trades_for_switch (settings m) then False
      else if max_drawdown_pct m > max_drawdown_pct_for_switch (settings m) then False
      else True)"

text \<open>
  \<open>switch_environment(target_env)\<close>: \<open>None\<close> toggles. The result is the returned
  boolean and the manager afterwards.
\<close>

definition switch_environment ::
  "int \<Rightarrow> bool \<Rightarrow> Environment option \<Rightarrow> EnvironmentManager \<Rightarrow> bool \<times> EnvironmentManager" where
  "switch_environment now disk target_env m =
     (let current_env = environment (settings m);
          target = (case target_env of
                      None \<Rightarrow> (if current_env = TESTNET then MAINNET else TESTNET)
                    | Some t \<Rightarrow> t)
      in if current_env = target then (False, m)
         else (True, set_environment now disk target True m))"

section \<open>Python values\<close>

text \<open>
  Dictionaries with string keys are association lists; \<open>d.get(k)\<close> and \<open>d.get(k, v)\<close>
  read them. A value is \<open>None\<close>, a boolean, a string, a number or a nested dictionary.
\<close>

datatype pyval =
    PNone
  | PBool bool
  | PStr string
  | PInt int
  | PFloat real
  | PDict "(string \<times> pyval) list"

type_synonym pydict = "(string \<times> pyval) list"

definition dict_get :: "pydict \<Rightarrow> string \<Rightarrow> pyval" where
  "dict_get d k = (case map_of d k of None \<Rightarrow> PNone | Some v \<Rightarrow> v)"

definition dict_get_default :: "pydict \<Rightarrow> string \<Rightarrow> pyval \<Rightarrow> pyval" where
  "dict_get_default d k v0 = (case map_of d k of None \<Rightarrow> v0 | Some v \<Rightarrow> v)"

text \<open>Python's truth value of an object, as \<open>if x\<close> and \<open>not x\<close> test it.\<close>

fun truthy :: "pyval \<Rightarrow> bool" where
  "truthy PNone = False"
| "truthy (PBool b) = b"
| "truthy (PStr s) = (s \<noteq> [])"
| "truthy (PInt i) = (i \<noteq> 0)"
| "truthy (PFloat x) = (x \<noteq> 0)"
| "truthy (PDict d) = (d \<noteq> [])"

text \<open>\<open>str.lower()\<close> on ASCII letters, which is all the factory compares against.\<close>

definition lower_char :: "char \<Rightarrow> char" where
  "lower_char c =
     (let n = (of_char c :: nat) in if 65 \<le> n \<and> n \<le> 90 then char_of (n + 32) else c)"

definition lower :: "string \<Rightarrow> string" where
  "lower s = map lower_char s"

section \<open>Order router (app/core/order_router.py)\<close>

subsection \<open>Connectors and the outside world\<close>

text \<open>A connector object: the exchange it talks to and the environment it was built for.\<close>

record connector =
  conn_exchange :: string
  conn_env :: Environment

text \<open>Exceptions. \<open>Raised e\<close> is an exception of which only the text is known.\<close>

datatype py_exn = KeyError string | TypeError string | Raised string

text \<open>
  Every call the router makes on a connector or on the strategy is logged, in order, in
  the field \<open>calls\<close> of the router's state; the log is instrumentation, no source
  attribute. The first component of a connector event is the key under which the router
  holds the connector.
\<close>

datatype event =
    PlaceOrder string pydict
  | UpdateOrder string pyval pydict
  | CancelOrder string pyval
  | GetAccountInfo string
  | GetKlines string
  | GetAccountBalance string
  | GenerateSignal

text \<open>
  The outside world answers each call as a function of the history of calls so far, the
  connector and the arguments. \<open>Inl e\<close> is an exception whose \<open>str(e)\<close> is \<open>e\<close>.
  \<^item> \<open>conn_place_order\<close>, \<open>conn_update_order\<close>, \<open>conn_cancel_order\<close>: the connector
    methods of these names, returning a response dictionary;
  \<^item> \<open>conn_equity\<close>: \<open>float(exchange.get_account_info().get('equity', 0.0))\<close>;
  \<^item> \<open>klines_loaded\<close>: whether \<open>get_klines\<close>, the conversion of its candles to a data
    frame and \<open>strategy.update_data\<close> all complete without an exception;
  \<^item> \<open>balance_loaded\<close>: the same for \<open>get_account_balance\<close> and
    \<open>strategy.update_equity\<close>;
  \<^item> \<open>strategy_signal\<close>: \<open>strategy.generate_signal()\<close>;
  \<^item> \<open>time_time\<close> and \<open>datetime_now\<close>: the clocks;
  \<^item> \<open>str_of\<close>: the text an f-string gives for a value;
  \<^item> \<open>config_writable\<close>: whether the file system lets \<open>_save_config\<close> create the
    directory and write the file;
  \<^item> \<open>okx_init\<close>: the outcome of the constructor of \<open>OKXConnector\<close>.
\<close>

record world =
  conn_place_order :: "event list \<Rightarrow> connector \<Rightarrow> pydict \<Rightarrow> string + pydict"
  conn_update_order :: "event list \<Rightarrow> connector \<Rightarrow> pyval \<Rightarrow> pydict \<Rightarrow> string + pydict"
  conn_cancel_order :: "event list \<Rightarrow> connector \<Rightarrow> pyval \<Rightarrow> string + pydict"
  conn_equity :: "event list \<Rightarrow> connector \<Rightarrow> string + real"
  klines_loaded :: "event list \<Rightarrow> connector \<Rightarrow> string \<Rightarrow> string \<Rightarrow> int \<Rightarrow> bool"
  balance_loaded :: "event list \<Rightarrow> connector \<Rightarrow> bool"
  strategy_signal :: "event list \<Rightarrow> string + pydict"
  time_time :: "event list \<Rightarrow> real"
  datetime_now :: "event list \<Rightarrow> int"
  str_of :: "pyval \<Rightarrow> string"
  config_writable :: "event list \<Rightarrow> bool"
  okx_init :: "Environment \<Rightarrow> py_exn option"

text \<open>
  \<open>create_connector\<close> lower-cases the name and calls the constructor of one of three
  connector classes with the test-net flag and the base URLs of the environment current
  at that moment; any other name gives \<open>None\<close>. A connector is represented by the
  exchange and the environment it was built for (credentials are not modelled).
  \<^item> \<open>BybitV5Connector.__init__\<close> takes the keyword arguments passed and stores them.
  \<^item> \<open>BinanceConnector.__init__\<close> has no parameters \<open>base_url\<close> and \<open>ws_url\<close>,
    which the factory passes: the call raises \<open>TypeError\<close> (its text is abbreviated).
  \<^item> \<open>OKXConnector\<close> is imported from \<open>app.connectors.okx.connector\<close>, which is not
    among the sources: what its constructor does with the arguments passed is the
    parameter \<open>okx_init\<close> of the world, \<open>None\<close> when it returns a connector and
    \<open>Some e\<close> when it raises \<open>e\<close>.
  Nothing in the factory catches these exceptions.
\<close>

definition create_connector ::
  "world \<Rightarrow> Environment \<Rightarrow> string \<Rightarrow> py_exn + connector option" where
  "create_connector w current_env exchange_name =
     (let n = lower exchange_name in
      if n = ''bybit'' then Inr (Some \<lparr>conn_exchange = n, conn_env = current_env\<rparr>)
      else if n = ''okx'' then
        (case okx_init w current_env of
           None \<Rightarrow> Inr (Some \<lparr>conn_exchange = n, conn_env = current_env\<rparr>)
         | Some e \<Rightarrow> Inl e)
      else if n = ''binance'' then
        Inl (TypeError ''__init__() got an unexpected keyword argument base_url'')
      else Inr None)"

subsection \<open>The router's state\<close>

text \<open>
  An entry of \<open>order_history\<close>. The source builds dictionaries whose key sets differ by
  operation; a key that an operation does not write is \<open>None\<close> here. \<open>rec_response\<close> is
  \<open>None\<close> as well where the source stores \<open>'response': None\<close>.
\<close>

record OrderRecord =
  rec_timestamp :: real
  rec_exchange :: string
  rec_order_id :: "pyval option"
  rec_params :: "pydict option"
  rec_response :: "pydict option"
  rec_status :: string
  rec_failover :: "bool option"
  rec_type :: "string option"
  rec_error :: "string option"

text \<open>A value of \<open>active_positions\<close>, with the keys \<open>execute_strategy\<close> writes.\<close>

record ActivePosition =
  pos_side :: pyval
  pos_size :: pyval
  pos_entry_price :: pyval
  pos_stop_loss :: pyval
  pos_stop_order_id :: pyval
  pos_entry_time :: real
  pos_entry_order_id :: pyval

text \<open>
  The router. \<open>config_exchanges\<close> holds, for each entry of \<open>config['exchanges']\<close>, its
  \<open>'name'\<close> (empty when absent); \<open>strategy\<close> is the name of the strategy object or
  \<open>None\<close>. \<open>exchanges\<close> and \<open>active_positions\<close> are dictionaries in insertion order.
  The three accumulators carry the prefix \<open>router_\<close> because the environment manager
  has attributes of the same names.
\<close>

record OrderRouter =
  config_exchanges :: "string list"
  env_manager :: EnvironmentManager
  exchanges :: "(string \<times> connector) list"
  primary_exchange :: string
  strategy :: "string option"
  active_positions :: "(string \<times> ActivePosition) list"
  order_history :: "OrderRecord list"
  total_trades :: int
  router_current_equity :: real
  router_peak_equity :: real
  router_max_drawdown_pct :: real
  calls :: "event list"

subsection \<open>Setting up and resolving exchanges\<close>

text \<open>
  \<open>_setup_exchanges\<close>: entries without a name are skipped, as are names for which the
  factory gives nothing; a repeated name overwrites the earlier connector in place. An
  exception of the factory leaves the method, and the dictionary built so far is lost.
\<close>

fun setup_exchanges ::
  "world \<Rightarrow> Environment \<Rightarrow> string list \<Rightarrow> (string \<times> connector) list
     \<Rightarrow> py_exn + (string \<times> connector) list" where
  "setup_exchanges w current_env [] acc = Inr acc"
| "setup_exchanges w current_env (exchange_name # rest) acc =
     (if exchange_name = [] then setup_exchanges w current_env rest acc
      else (case create_connector w current_env exchange_name of
              Inl e \<Rightarrow> Inl e
            | Inr None \<Rightarrow> setup_exchanges w current_env rest acc
            | Inr (Some c) \<Rightarrow>
                setup_exchanges w current_env rest (AList.update exchange_name c acc)))"

text \<open>\<open>if not exchange_name: exchange_name = self.primary_exchange\<close>.\<close>

definition name_or_primary :: "OrderRouter \<Rightarrow> string option \<Rightarrow> string" where
  "name_or_primary r exchange_name =
     (case exchange_name of
        None \<Rightarrow> primary_exchange r
      | Some n \<Rightarrow> if n = [] then primary_exchange r else n)"

definition get_exchange :: "OrderRouter \<Rightarrow> string option \<Rightarrow> connector option" where
  "get_exchange r exchange_name = map_of (exchanges r) (name_or_primary r exchange_name)"

definition log_call :: "event \<Rightarrow> OrderRouter \<Rightarrow> OrderRouter" where
  "log_call e r = r\<lparr>calls := calls r @ [e]\<rparr>"

definition append_record :: "OrderRecord \<Rightarrow> OrderRouter \<Rightarrow> OrderRouter" where
  "append_record orec r = r\<lparr>order_history := order_history r @ [orec]\<rparr>"

definition error_result :: "string \<Rightarrow> pydict" where
  "error_result msg = [(''status'', PStr ''error''), (''message'', PStr msg)]"

definition not_found_message :: "string \<Rightarrow> string" where
  "not_found_message exchange_name =
     ''Exchange '' @ CHR 0x27 # exchange_name @ CHR 0x27 # '' not found''"

subsection \<open>place_order\<close>

text \<open>
  The loop \<open>for name, ex in self.exchanges.items(): if name != exchange_name: try ...\<close>,
  which the source has twice with the same body. \<open>Some response\<close> is the return from
  inside the loop, \<open>None\<close> its exhaustion.
\<close>

fun place_failover ::
  "world \<Rightarrow> pydict \<Rightarrow> string \<Rightarrow> (string \<times> connector) list \<Rightarrow> OrderRouter
     \<Rightarrow> pydict option \<times> OrderRouter" where
  "place_failover w order_params exchange_name [] r = (None, r)"
| "place_failover w order_params exchange_name ((name, ex) # rest) r =
     (if name \<noteq> exchange_name then
        (let r1 = log_call (PlaceOrder name order_params) r in
         case conn_place_order w (calls r) ex order_params of
           Inr response \<Rightarrow>
             (Some response,
              append_record
                \<lparr>rec_timestamp = time_time w (calls r1), rec_exchange = name,
                 rec_order_id = None, rec_params = Some order_params,
                 rec_response = Some response, rec_status = ''success'',
                 rec_failover = Some True, rec_type = None, rec_error = None\<rparr> r1)
         | Inl e \<Rightarrow> place_failover w order_params exchange_name rest r1)
      else place_failover w order_params exchange_name rest r)"

definition failed_place_record :: "real \<Rightarrow> string \<Rightarrow> pydict \<Rightarrow> string \<Rightarrow> OrderRecord" where
  "failed_place_record ts exchange_name order_params err =
     \<lparr>rec_timestamp = ts, rec_exchange = exchange_name,
      rec_order_id = None, rec_params = Some order_params,
      rec_response = None, rec_status = ''failed'',
      rec_failover = Some False, rec_type = None, rec_error = Some err\<rparr>"

definition place_order ::
  "world \<Rightarrow> OrderRouter \<Rightarrow> pydict \<Rightarrow> string option \<Rightarrow> pydict \<times> OrderRouter" where
  "place_order w r order_params exchange_name0 =
     (let exchange_name = name_or_primary r exchange_name0 in
      case get_exchange r (Some exchange_name) of
        None \<Rightarrow>
          (case place_failover w order_params exchange_name (exchanges r) r of
             (Some response, r1) \<Rightarrow> (response, r1)
           | (None, r1) \<Rightarrow>
               (error_result ''All exchanges failed to place order'',
                append_record
                  (failed_place_record (time_time w (calls r1)) exchange_name order_params
                     ''All exchanges failed'') r1))
      | Some exchange \<Rightarrow>
          (let r0 = log_call (PlaceOrder exchange_name order_params) r in
           case conn_place_order w (calls r) exchange order_params of
             Inr response \<Rightarrow>
               (response,
                append_record
                  \<lparr>rec_timestamp = time_time w (calls r0), rec_exchange = exchange_name,
                   rec_order_id = None, rec_params = Some order_params,
                   rec_response = Some response, rec_status = ''success'',
                   rec_failover = Some False, rec_type = None, rec_error = None\<rparr> r0)
           | Inl e \<Rightarrow>
               (case place_failover w order_params exchange_name (exchanges r0) r0 of
                  (Some response, r1) \<Rightarrow> (response, r1)
                | (None, r1) \<Rightarrow>
                    (error_result e,
                     append_record
                       (failed_place_record (time_time w (calls r1)) exchange_name
                          order_params e) r1))))"

subsection \<open>update_order and cancel_order\<close>

definition update_order ::
  "world \<Rightarrow> OrderRouter \<Rightarrow> pyval \<Rightarrow> pydict \<Rightarrow> string option \<Rightarrow> pydict \<times> OrderRouter" where
  "update_order w r order_id update_params exchange_name0 =
     (let exchange_name = name_or_primary r exchange_name0 in
      case get_exchange r (Some exchange_name) of
        None \<Rightarrow> (error_result (not_found_message exchange_name), r)
      | Some exchange \<Rightarrow>
          (let r0 = log_call (UpdateOrder exchange_name order_id update_params) r in
           case conn_update_order w (calls r) exchange order_id update_params of
             Inr response \<Rightarrow>
               (response,
                append_record
                  \<lparr>rec_timestamp = time_time w (calls r0), rec_exchange = exchange_name,
                   rec_order_id = Some order_id, rec_params = Some update_params,
                   rec_response = Some response, rec_status = ''success'',
                   rec_failover = None, rec_type = Some ''update'', rec_error = None\<rparr> r0)
           | Inl e \<Rightarrow>
               (error_result e,
                append_record
                  \<lparr>rec_timestamp = time_time w (calls r0), rec_exchange = exchange_name,
                   rec_order_id = Some order_id, rec_params = Some update_params,
                   rec_response = None, rec_status = ''failed'',
                   rec_failover = None, rec_type = Some ''update'', rec_error = Some e\<rparr> r0)))"

definition cancel_order ::
  "world \<Rightarrow> OrderRouter \<Rightarrow> pyval \<Rightarrow> string option \<Rightarrow> pydict \<times> OrderRouter" where
  "cancel_order w r order_id exchange_name0 =
     (let exchange_name = name_or_primary r exchange_name0 in
      case get_exchange r (Some exchange_name) of
        None \<Rightarrow> (error_result (not_found_message exchange_name), r)
      | Some exchange \<Rightarrow>
          (let r0 = log_call (CancelOrder exchange_name order_id) r in
           case conn_cancel_order w (calls r) exchange order_id of
             Inr response \<Rightarrow>
               (response,
                append_record
                  \<lparr>rec_timestamp = time_time w (calls r0), rec_exchange = exchange_name,
                   rec_order_id = Some order_id, rec_params = None,
                   rec_response = Some response, rec_status = ''success'',
                   rec_failover = None, rec_type = Some ''cancel'', rec_error = None\<rparr> r0)
           | Inl e \<Rightarrow>
               (error_result e,
                append_record
                  \<lparr>rec_timestamp = time_time w (calls r0), rec_exchange = exchange_name,
                   rec_order_id = Some order_id, rec_params = None,
                   rec_response = None, rec_status = ''failed'',
                   rec_failover = None, rec_type = Some ''cancel'', rec_error = Some e\<rparr> r0)))"

subsection \<open>Market data and equity refresh\<close>

text \<open>The failover loops of \<open>update_market_data\<close> and \<open>update_account_equity\<close>.\<close>

fun klines_failover ::
  "world \<Rightarrow> string \<Rightarrow> string \<Rightarrow> int \<Rightarrow> (string \<times> connector) list \<Rightarrow> OrderRouter
     \<Rightarrow> bool \<times> OrderRouter" where
  "klines_failover w symbol timeframe limit [] r = (False, r)"
| "klines_failover w symbol timeframe limit ((name, ex) # rest) r =
     (if name \<noteq> primary_exchange r then
        (let r1 = log_call (GetKlines name) r in
         if klines_loaded w (calls r) ex symbol timeframe limit then (True, r1)
         else klines_failover w symbol timeframe limit rest r1)
      else klines_failover w symbol timeframe limit rest r)"

definition update_market_data ::
  "world \<Rightarrow> OrderRouter \<Rightarrow> string \<Rightarrow> string \<Rightarrow> int \<Rightarrow> bool \<times> OrderRouter" where
  "update_market_data w r symbol timeframe limit =
     (if strategy r = None then (False, r)
      else case get_exchange r None of
        None \<Rightarrow> (False, r)
      | Some exchange \<Rightarrow>
          (let r0 = log_call (GetKlines (primary_exchange r)) r in
           if klines_loaded w (calls r) exchange symbol timeframe limit then (True, r0)
           else klines_failover w symbol timeframe limit (exchanges r0) r0))"

fun balance_failover ::
  "world \<Rightarrow> (string \<times> connector) list \<Rightarrow> OrderRouter \<Rightarrow> bool \<times> OrderRouter" where
  "balance_failover w [] r = (False, r)"
| "balance_failover w ((name, ex) # rest) r =
     (if name \<noteq> primary_exchange r then
        (let r1 = log_call (GetAccountBalance name) r in
         if balance_loaded w (calls r) ex then (True, r1)
         else balance_failover w rest r1)
      else balance_failover w rest r)"

definition update_account_equity :: "world \<Rightarrow> OrderRouter \<Rightarrow> bool \<times> OrderRouter" where
  "update_account_equity w r =
     (if strategy r = None then (False, r)
      else case get_exchange r None of
        None \<Rightarrow> (False, r)
      | Some exchange \<Rightarrow>
          (let r0 = log_call (GetAccountBalance (primary_exchange r)) r in
           if balance_loaded w (calls r) exchange then (True, r0)
           else balance_failover w (exchanges r0) r0))"

subsection \<open>execute_strategy\<close>

text \<open>
  \<open>execute_strategy\<close> has no exception handler of its own: a missing key of the signal
  and an exception of \<open>generate_signal\<close> leave it as exceptions.
\<close>

type_synonym exec_result = "py_exn + pydict"

definition warning_result :: "string \<Rightarrow> pydict" where
  "warning_result msg = [(''status'', PStr ''warning''), (''message'', PStr msg)]"

definition side_is_long :: "pyval \<Rightarrow> bool" where
  "side_is_long side = (side = PStr ''long'')"

definition is_error :: "pydict \<Rightarrow> bool" where
  "is_error response = (dict_get response ''status'' = PStr ''error'')"

definition entry_params :: "string \<Rightarrow> pyval \<Rightarrow> pyval \<Rightarrow> pydict" where
  "entry_params symbol side size0 =
     [(''symbol'', PStr symbol),
      (''side'', PStr (if side_is_long side then ''buy'' else ''sell'')),
      (''type'', PStr ''market''),
      (''quantity'', size0),
      (''reduce_only'', PBool False)]"

definition stop_params :: "string \<Rightarrow> pyval \<Rightarrow> pyval \<Rightarrow> pyval \<Rightarrow> pydict" where
  "stop_params symbol side size0 stop_loss =
     [(''symbol'', PStr symbol),
      (''side'', PStr (if side_is_long side then ''sell'' else ''buy'')),
      (''type'', PStr ''stop_market''),
      (''quantity'', size0),
      (''stop_price'', stop_loss),
      (''reduce_only'', PBool True)]"

definition exit_params :: "string \<Rightarrow> ActivePosition \<Rightarrow> pydict" where
  "exit_params symbol position =
     [(''symbol'', PStr symbol),
      (''side'', PStr (if side_is_long (pos_side position) then ''sell'' else ''buy'')),
      (''type'', PStr ''market''),
      (''quantity'', pos_size position),
      (''reduce_only'', PBool True)]"

text \<open>The branch \<open>signal['action'] == 'open'\<close>, after the four keys have been read.\<close>

definition execute_open ::
  "world \<Rightarrow> OrderRouter \<Rightarrow> string \<Rightarrow> pyval \<Rightarrow> pyval \<Rightarrow> pyval \<Rightarrow> pyval
     \<Rightarrow> exec_result \<times> OrderRouter" where
  "execute_open w r symbol side size0 entry_price stop_loss =
     (case place_order w r (entry_params symbol side size0) None of
        (entry_response, r1) \<Rightarrow>
          if is_error entry_response then
            (Inr (error_result (''Failed to place entry order: ''
                    @ str_of w (dict_get entry_response ''message''))), r1)
          else
            (case place_order w r1 (stop_params symbol side size0 stop_loss) None of
               (stop_response, r2) \<Rightarrow>
                 if is_error stop_response then
                   (Inr (error_result (''Failed to place stop loss order: ''
                           @ str_of w (dict_get stop_response ''message''))),
                    snd (cancel_order w r2
                           (dict_get_default entry_response ''order_id'' (PStr '''')) None))
                 else
                   (Inr [(''status'', PStr ''success''), (''action'', PStr ''open''),
                         (''side'', side), (''size'', size0),
                         (''entry_price'', entry_price), (''stop_loss'', stop_loss),
                         (''entry_order'', PDict entry_response),
                         (''stop_order'', PDict stop_response)],
                    r2\<lparr>active_positions :=
                         AList.update symbol
                           \<lparr>pos_side = side, pos_size = size0,
                            pos_entry_price = entry_price, pos_stop_loss = stop_loss,
                            pos_stop_order_id =
                              dict_get_default stop_response ''order_id'' (PStr ''''),
                            pos_entry_time = time_time w (calls r2),
                            pos_entry_order_id =
                              dict_get_default entry_response ''order_id'' (PStr '''')\<rparr>
                           (active_positions r2)\<rparr>)))"

definition execute_close :: "world \<Rightarrow> OrderRouter \<Rightarrow> string \<Rightarrow> exec_result \<times> OrderRouter" where
  "execute_close w r symbol =
     (case map_of (active_positions r) symbol of
        None \<Rightarrow> (Inr (warning_result (''No active position found for '' @ symbol)), r)
      | Some position \<Rightarrow>
          (case place_order w r (exit_params symbol position) None of
             (exit_response, r1) \<Rightarrow>
               if is_error exit_response then
                 (Inr (error_result (''Failed to close position: ''
                         @ str_of w (dict_get exit_response ''message''))), r1)
               else
                 (let r2 = (if truthy (pos_stop_order_id position)
                            then snd (cancel_order w r1 (pos_stop_order_id position) None)
                            else r1)
                  in (Inr [(''status'', PStr ''success''), (''action'', PStr ''close''),
                           (''side'', pos_side position), (''size'', pos_size position),
                           (''exit_order'', PDict exit_response)],
                      r2\<lparr>active_positions := AList.delete symbol (active_positions r2)\<rparr>))))"

definition execute_update_stop ::
  "world \<Rightarrow> OrderRouter \<Rightarrow> string \<Rightarrow> pydict \<Rightarrow> exec_result \<times> OrderRouter" where
  "execute_update_stop w r symbol signal =
     (case map_of (active_positions r) symbol of
        None \<Rightarrow> (Inr (warning_result (''No active position found for '' @ symbol)), r)
      | Some position \<Rightarrow>
          (case map_of signal ''stop_loss'' of
             None \<Rightarrow> (Inl (KeyError ''stop_loss''), r)
           | Some new_stop \<Rightarrow>
               if \<not> truthy (pos_stop_order_id position) then
                 (Inr (warning_result (''No stop order ID found for '' @ symbol)), r)
               else
                 (case update_order w r (pos_stop_order_id position)
                         [(''stop_price'', new_stop)] None of
                    (update_response, r1) \<Rightarrow>
                      if is_error update_response then
                        (Inr (error_result (''Failed to update stop loss: ''
                                @ str_of w (dict_get update_response ''message''))), r1)
                      else
                        (Inr [(''status'', PStr ''success''), (''action'', PStr ''update_stop''),
                              (''side'', pos_side position), (''new_stop'', new_stop),
                              (''update_response'', PDict update_response)],
                         r1\<lparr>active_positions :=
                              map (\<lambda>(s, p). if s = symbol
                                              then (s, p\<lparr>pos_stop_loss := new_stop\<rparr>)
                                              else (s, p))
                                  (active_positions r1)\<rparr>))))"

text \<open>The dispatch on \<open>signal['action']\<close>.\<close>

definition process_signal ::
  "world \<Rightarrow> OrderRouter \<Rightarrow> string \<Rightarrow> pydict \<Rightarrow> exec_result \<times> OrderRouter" where
  "process_signal w r symbol signal =
     (case map_of signal ''action'' of
        None \<Rightarrow> (Inl (KeyError ''action''), r)
      | Some action \<Rightarrow>
          if action = PStr ''open'' then
            (case map_of signal ''side'' of
               None \<Rightarrow> (Inl (KeyError ''side''), r)
             | Some side \<Rightarrow>
            (case map_of signal ''size'' of
               None \<Rightarrow> (Inl (KeyError ''size''), r)
             | Some size0 \<Rightarrow>
            (case map_of signal ''entry_price'' of
               None \<Rightarrow> (Inl (KeyError ''entry_price''), r)
             | Some entry_price \<Rightarrow>
            (case map_of signal ''stop_loss'' of
               None \<Rightarrow> (Inl (KeyError ''stop_loss''), r)
             | Some stop_loss \<Rightarrow>
                 execute_open w r symbol side size0 entry_price stop_loss))))
          else if action = PStr ''close'' then execute_close w r symbol
          else if action = PStr ''update_stop'' then execute_update_stop w r symbol signal
          else (Inr [(''status'', PStr ''success''), (''action'', action),
                     (''reason'', dict_get_default signal ''reason'' (PStr ''''))], r))"

definition execute_strategy ::
  "world \<Rightarrow> OrderRouter \<Rightarrow> string \<Rightarrow> string \<Rightarrow> exec_result \<times> OrderRouter" where
  "execute_strategy w r symbol timeframe =
     (if strategy r = None then (Inr (error_result ''Strategy not initialized''), r)
      else case update_market_data w r symbol timeframe 500 of
        (False, r1) \<Rightarrow> (Inr (error_result ''Failed to update market data''), r1)
      | (True, r1) \<Rightarrow>
          (let r2 = snd (update_account_equity w r1);
               r3 = log_call GenerateSignal r2
           in case strategy_signal w (calls r2) of
                Inl e \<Rightarrow> (Inl (Raised e), r3)
              | Inr signal \<Rightarrow> process_signal w r3 symbol signal))"

subsection \<open>Environment change\<close>

text \<open>
  The loop of \<open>close_all_positions\<close> over the snapshot \<open>positions_to_close\<close>. No
  position dictionary has a key \<open>'exchange'\<close>, so \<open>position.get('exchange',
  self.primary_exchange)\<close> is the primary exchange.
\<close>

fun close_positions_loop ::
  "world \<Rightarrow> (string \<times> ActivePosition) list \<Rightarrow> bool \<Rightarrow> OrderRouter \<Rightarrow> bool \<times> OrderRouter" where
  "close_positions_loop w [] success r = (success, r)"
| "close_positions_loop w ((symbol, position) # rest) success r =
     (let exchange_name = primary_exchange r in
      case place_order w r (exit_params symbol position) (Some exchange_name) of
        (exit_response, r1) \<Rightarrow>
          if is_error exit_response then close_positions_loop w rest False r1
          else
            (let r2 = (if truthy (pos_stop_order_id position)
                       then snd (cancel_order w r1 (pos_stop_order_id position)
                                   (Some exchange_name))
                       else r1)
             in close_positions_loop w rest success
                  (r2\<lparr>active_positions := AList.delete symbol (active_positions r2)\<rparr>)))"

definition close_all_positions :: "world \<Rightarrow> OrderRouter \<Rightarrow> bool \<times> OrderRouter" where
  "close_all_positions w r =
     (if active_positions r = [] then (True, r)
      else close_positions_loop w (active_positions r) True r)"

text \<open>
  \<open>handle_env_change(target_env)\<close>. The manager that \<open>create_connector\<close> consults is
  the router's own (the module's single instance). The method has no exception handler:
  when \<open>_setup_exchanges\<close> raises, the exception leaves the method after the positions
  have been closed and the environment switched, and \<open>self.exchanges\<close> keeps the old
  connectors.
\<close>

definition switch_step :: "world \<Rightarrow> Environment \<Rightarrow> OrderRouter \<Rightarrow> OrderRouter" where
  "switch_step w target r =
     r\<lparr>env_manager :=
         snd (switch_environment (datetime_now w (calls r)) (config_writable w (calls r))
                (Some target) (env_manager r))\<rparr>"

definition handle_env_change ::
  "world \<Rightarrow> OrderRouter \<Rightarrow> Environment option \<Rightarrow> (py_exn + bool) \<times> OrderRouter" where
  "handle_env_change w r target_env =
     (let current_env = get_environment (env_manager r);
          target_opt = (case target_env of
                          None \<Rightarrow> if should_switch_to_mainnet (datetime_now w (calls r))
                                       (env_manager r)
                                   then Some MAINNET else None
                        | Some t \<Rightarrow> Some t)
      in case target_opt of
           None \<Rightarrow> (Inr False, r)
         | Some target \<Rightarrow>
             if current_env = target then (Inr False, r)
             else
               (let r1 = snd (close_all_positions w r);
                    r2 = switch_step w target r1
                in case setup_exchanges w (get_environment (env_manager r2))
                          (config_exchanges r2) [] of
                     Inl e \<Rightarrow> (Inl e, r2)
                   | Inr new_exchanges \<Rightarrow> (Inr True, r2\<lparr>exchanges := new_exchanges\<rparr>)))"

subsection \<open>Performance metrics\<close>

text \<open>
  The loop \<open>for exchange_name in self.exchanges\<close> of
  \<open>update_performance_metrics\<close>, left at the first exchange that answers.
\<close>

fun poll_equity :: "world \<Rightarrow> (string \<times> connector) list \<Rightarrow> OrderRouter \<Rightarrow> OrderRouter" where
  "poll_equity w [] r = r"
| "poll_equity w ((exchange_name, exchange) # rest) r =
     (let r1 = log_call (GetAccountInfo exchange_name) r in
      case conn_equity w (calls r) exchange of
        Inr equity \<Rightarrow> r1\<lparr>router_current_equity := equity\<rparr>
      | Inl e \<Rightarrow> poll_equity w rest r1)"

definition update_performance_metrics :: "world \<Rightarrow> OrderRouter \<Rightarrow> OrderRouter" where
  "update_performance_metrics w r =
     (let r1 = poll_equity w (exchanges r) r;
          r2 = (if router_current_equity r1 > router_peak_equity r1
                then r1\<lparr>router_peak_equity := router_current_equity r1\<rparr> else r1);
          r3 = (if router_peak_equity r2 > 0
                then r2\<lparr>router_max_drawdown_pct :=
                          max (router_max_drawdown_pct r2)
                              ((router_peak_equity r2 - router_current_equity r2)
                                 / router_peak_equity r2 * 100)\<rparr>
                else r2)
      in r3\<lparr>env_manager :=
              env_update_performance_metrics (router_current_equity r3) (total_trades r3)
                (router_max_drawdown_pct r3) (env_manager r3)\<rparr>)"

definition get_new_trade_count :: "OrderRouter \<Rightarrow> int \<times> OrderRouter" where
  "get_new_trade_count r =
     (let new_trades = int (length (order_history r)) - total_trades r
      in (max 0 new_trades, r\<lparr>total_trades := int (length (order_history r))\<rparr>))"

subsection \<open>Construction\<close>

text \<open>
  \<open>OrderRouter.__init__\<close>. \<open>OrderRouter_init\<close> is the constructor from the point where
  \<open>_setup_exchanges\<close> has returned the dictionary \<open>connectors\<close>; \<open>OrderRouter_new\<close>
  is the whole of it, which raises when \<open>_setup_exchanges\<close> does. \<open>strategy_name\<close> is
  \<open>config['strategy']['name']\<close> (empty when absent); \<open>create_strategy\<close> knows the
  single strategy \<open>trend_rsi\<close>.
\<close>

definition OrderRouter_init ::
  "EnvironmentManager \<Rightarrow> (string \<times> connector) list \<Rightarrow> string list \<Rightarrow> string \<Rightarrow> string
     \<Rightarrow> OrderRouter" where
  "OrderRouter_init em connectors exchange_names primary strategy_name =
     \<lparr>config_exchanges = exchange_names,
      env_manager = env_update_performance_metrics 0 0 0 em,
      exchanges = connectors,
      primary_exchange = primary,
      strategy = (if strategy_name \<noteq> [] \<and> lower strategy_name = ''trend_rsi''
                  then Some strategy_name else None),
      active_positions = [],
      order_history = [],
      total_trades = 0,
      router_current_equity = 0,
      router_peak_equity = 0,
      router_max_drawdown_pct = 0,
      calls = []\<rparr>"

definition OrderRouter_new ::
  "world \<Rightarrow> EnvironmentManager \<Rightarrow> string list \<Rightarrow> string \<Rightarrow> string \<Rightarrow> py_exn + OrderRouter" where
  "OrderRouter_new w em exchange_names primary strategy_name =
     (case setup_exchanges w (get_environment em) exchange_names [] of
        Inl e \<Rightarrow> Inl e
      | Inr connectors \<Rightarrow>
          Inr (OrderRouter_init em connectors exchange_names primary strategy_name))"

section \<open>Example states\<close>

text \<open>
  The manager of the repository's test \<open>test_env_switch.py\<close>: thresholds 48 hours,
  10 trades and 4 percent; started at time 0, with 20 trades and a drawdown of 2 percent.
\<close>

definition example_manager :: EnvironmentManager where
  "example_manager =
     \<lparr>settings = \<lparr>environment = TESTNET, auto_switch_enabled = True,
                  testnet_duration_hours = 48, min_trades_for_switch = 10,
                  max_drawdown_pct_for_switch = 4, config_path = ''config/env.yaml''\<rparr>,
      start_time = 0, last_switch_time = 0, trade_count = 20,
      peak_equity = 0, current_equity = 0, max_drawdown_pct = 2,
      ENV_SWITCH_TOTAL = 0, CURRENT_ENV = 0, config_writes = []\<rparr>"

definition hours_us :: "int \<Rightarrow> int" where
  "hours_us h = h * 3600000000"

text \<open>
  A router with primary \<open>bybit\<close> and failovers \<open>okx\<close> and \<open>binance\<close>, holding a
  test-net connector for each, as it does when the connectors are supplied in place of
  the factory's (the repository's tests patch \<open>create_connector\<close>; the factory itself
  raises on \<open>binance\<close>).
\<close>

definition example_router :: OrderRouter where
  "example_router =
     OrderRouter_init example_manager
       [(''bybit'', \<lparr>conn_exchange = ''bybit'', conn_env = TESTNET\<rparr>),
        (''okx'', \<lparr>conn_exchange = ''okx'', conn_env = TESTNET\<rparr>),
        (''binance'', \<lparr>conn_exchange = ''binance'', conn_env = TESTNET\<rparr>)]
       [''bybit'', ''okx'', ''binance''] ''bybit'' ''trend_rsi''"

text \<open>
  A world whose connectors answer by exchange name only: \<open>place\<close> for orders placed,
  \<open>modify\<close> for updates and cancellations, \<open>equity\<close> for the account; market data
  always loads, the strategy always gives \<open>signal\<close>, the configuration file can be
  written and the constructor of \<open>OKXConnector\<close> returns a connector.
\<close>

definition simple_world ::
  "(string \<Rightarrow> pydict \<Rightarrow> string + pydict) \<Rightarrow> (string \<Rightarrow> string + pydict)
     \<Rightarrow> (string \<Rightarrow> string + real) \<Rightarrow> pydict \<Rightarrow> world" where
  "simple_world place modify equity signal =
     \<lparr>conn_place_order = (\<lambda>h c p. place (conn_exchange c) p),
      conn_update_order = (\<lambda>h c i p. modify (conn_exchange c)),
      conn_cancel_order = (\<lambda>h c i. modify (conn_exchange c)),
      conn_equity = (\<lambda>h c. equity (conn_exchange c)),
      klines_loaded = (\<lambda>h c s t l. True),
      balance_loaded = (\<lambda>h c. True),
      strategy_signal = (\<lambda>h. Inr signal),
      time_time = (\<lambda>h. real (length h)),
      datetime_now = (\<lambda>h. hours_us 72),
      str_of = (\<lambda>v. case v of PStr s \<Rightarrow> s | _ \<Rightarrow> ''None''),
      config_writable = (\<lambda>h. True),
      okx_init = (\<lambda>env. None)\<rparr>"

definition order_ok :: "string \<Rightarrow> string + pydict" where
  "order_ok oid = Inr [(''status'', PStr ''ok''), (''order_id'', PStr oid)]"

text \<open>A world where the \<open>k\<close>-th poll of the account gives the \<open>k\<close>-th equity of a list.\<close>

definition is_account_info :: "event \<Rightarrow> bool" where
  "is_account_info e = (case e of GetAccountInfo n \<Rightarrow> True | _ \<Rightarrow> False)"

definition equity_world :: "real list \<Rightarrow> world" where
  "equity_world seq =
     (simple_world (\<lambda>n p. order_ok ''1'') (\<lambda>n. order_ok ''1'') (\<lambda>n. Inl ''unused'') [])
       \<lparr>conn_equity := (\<lambda>h c. let k = length (filter is_account_info h)
                               in if k < length seq then Inr (seq ! k) else Inl ''down'')\<rparr>"

section \<open>Vocabulary of the statements\<close>

text \<open>
  \<open>attempts p xs\<close> is the log of one \<open>place_order\<close> call on each exchange of \<open>xs\<close> in
  turn; \<open>all_raise w p h xs\<close> says that, starting from the history \<open>h\<close>, each of these
  calls raises; \<open>others r name\<close> are the configured exchanges other than \<open>name\<close>, in
  the order of the dictionary.
\<close>

definition attempts :: "pydict \<Rightarrow> (string \<times> connector) list \<Rightarrow> event list" where
  "attempts p xs = map (\<lambda>x. PlaceOrder (fst x) p) xs"

fun all_raise :: "world \<Rightarrow> pydict \<Rightarrow> event list \<Rightarrow> (string \<times> connector) list \<Rightarrow> bool" where
  "all_raise w p h [] = True"
| "all_raise w p h ((name, ex) # rest) =
     (isl (conn_place_order w h ex p) \<and> all_raise w p (h @ [PlaceOrder name p]) rest)"

definition others :: "OrderRouter \<Rightarrow> string \<Rightarrow> (string \<times> connector) list" where
  "others r name = filter (\<lambda>x. fst x \<noteq> name) (exchanges r)"

text \<open>
  The resolved exchange is absent from the configured ones, or its \<open>place_order\<close>
  raises; and the history once it has been tried.
\<close>

definition resolved_fails :: "world \<Rightarrow> OrderRouter \<Rightarrow> pydict \<Rightarrow> string \<Rightarrow> bool" where
  "resolved_fails w r p name =
     (case map_of (exchanges r) name of
        None \<Rightarrow> True
      | Some ex \<Rightarrow> isl (conn_place_order w (calls r) ex p))"

definition after_resolved :: "OrderRouter \<Rightarrow> pydict \<Rightarrow> string \<Rightarrow> event list" where
  "after_resolved r p name =
     (case map_of (exchanges r) name of
        None \<Rightarrow> calls r
      | Some ex \<Rightarrow> calls r @ [PlaceOrder name p])"

text \<open>Worlds where the primary exchange, or every exchange, refuses orders.\<close>

definition primary_down_world :: world where
  "primary_down_world =
     simple_world (\<lambda>n p. if n = ''bybit'' then Inl ''bybit is down'' else order_ok (n @ ''-1''))
       (\<lambda>n. if n = ''bybit'' then Inl ''bybit is down'' else order_ok (n @ ''-2''))
       (\<lambda>n. Inr 1000) []"

definition all_down_world :: world where
  "all_down_world =
     simple_world (\<lambda>n p. Inl (n @ '' is down'')) (\<lambda>n. Inl (n @ '' is down''))
       (\<lambda>n. Inl (n @ '' is down'')) []"

definition example_params :: pydict where
  "example_params = [(''symbol'', PStr ''BTCUSDT''), (''side'', PStr ''buy'')]"

text \<open>A router that has seen a peak of 1200 and last read an equity of 900.\<close>

definition stale_router :: OrderRouter where
  "stale_router =
     example_router\<lparr>router_current_equity := 900, router_peak_equity := 1200, total_trades := 7\<rparr>"

text \<open>
  \<open>is_order_call\<close> singles out the calls that place, change or cancel an order.
  \<open>keeps_setup r r'\<close> says that \<open>r'\<close> has the configuration, connectors, manager and
  accumulators of \<open>r\<close>; \<open>no_order_activity r r'\<close> that, besides, the position book and
  the order history are those of \<open>r\<close> and no order call was logged in between.
\<close>

definition is_order_call :: "event \<Rightarrow> bool" where
  "is_order_call e =
     (case e of
        PlaceOrder n p \<Rightarrow> True
      | UpdateOrder n i p \<Rightarrow> True
      | CancelOrder n i \<Rightarrow> True
      | _ \<Rightarrow> False)"

definition keeps_setup :: "OrderRouter \<Rightarrow> OrderRouter \<Rightarrow> bool" where
  "keeps_setup r r' =
     (config_exchanges r' = config_exchanges r \<and> env_manager r' = env_manager r
      \<and> exchanges r' = exchanges r \<and> primary_exchange r' = primary_exchange r
      \<and> strategy r' = strategy r \<and> total_trades r' = total_trades r
      \<and> router_current_equity r' = router_current_equity r
      \<and> router_peak_equity r' = router_peak_equity r
      \<and> router_max_drawdown_pct r' = router_max_drawdown_pct r)"

definition no_order_activity :: "OrderRouter \<Rightarrow> OrderRouter \<Rightarrow> bool" where
  "no_order_activity r r' =
     (keeps_setup r r' \<and> active_positions r' = active_positions r
      \<and> order_history r' = order_history r
      \<and> filter is_order_call (calls r') = filter is_order_call (calls r))"

text \<open>
  The state in which \<open>execute_strategy\<close> dispatches on the signal, and the signal it
  dispatches on: \<open>None\<close> when the strategy is missing, the market data cannot be
  loaded or \<open>generate_signal\<close> raises.
\<close>

definition before_signal :: "world \<Rightarrow> OrderRouter \<Rightarrow> string \<Rightarrow> string \<Rightarrow> OrderRouter" where
  "before_signal w r symbol timeframe =
     log_call GenerateSignal
       (snd (update_account_equity w (snd (update_market_data w r symbol timeframe 500))))"

definition generated_signal ::
  "world \<Rightarrow> OrderRouter \<Rightarrow> string \<Rightarrow> string \<Rightarrow> pydict option" where
  "generated_signal w r symbol timeframe =
     (if strategy r = None \<or> \<not> fst (update_market_data w r symbol timeframe 500) then None
      else case strategy_signal w
                  (calls (snd (update_account_equity w
                                 (snd (update_market_data w r symbol timeframe 500))))) of
             Inl e \<Rightarrow> None
           | Inr signal \<Rightarrow> Some signal)"


definition close_signal :: pydict where
  "close_signal =
     [(''action'', PStr ''close''), (''side'', PStr ''long''), (''reason'', PStr ''trend_reversal'')]"

definition update_stop_signal :: pydict where
  "update_stop_signal =
     [(''action'', PStr ''update_stop''), (''side'', PStr ''long''), (''stop_loss'', PFloat 97),
      (''reason'', PStr ''trailing_stop_update'')]"

definition healthy_world :: "pydict \<Rightarrow> world" where
  "healthy_world signal =
     simple_world (\<lambda>n p. order_ok (n @ ''-1'')) (\<lambda>n. order_ok (n @ ''-2'')) (\<lambda>n. Inr 1000) signal"

text \<open>A long position whose stop order came back without an id, and a router holding it.\<close>

definition unprotected_position :: ActivePosition where
  "unprotected_position =
     \<lparr>pos_side = PStr ''long'', pos_size = PFloat 2, pos_entry_price = PFloat 100,
      pos_stop_loss = PFloat 95, pos_stop_order_id = PStr '''', pos_entry_time = 0,
      pos_entry_order_id = PStr ''bybit-1''\<rparr>"

definition router_with_position :: OrderRouter where
  "router_with_position =
     example_router\<lparr>active_positions := [(''BTCUSDT'', unprotected_position)]\<rparr>"



definition cancel_events :: "OrderRouter \<Rightarrow> pyval \<Rightarrow> event list" where
  "cancel_events r order_id =
     (case map_of (exchanges r) (primary_exchange r) of
        None \<Rightarrow> []
      | Some ex \<Rightarrow> [CancelOrder (primary_exchange r) order_id])"



text \<open>
  The router with a position, configured with \<open>bybit\<close> and \<open>okx\<close> only; and the
  same with a manager that meets the promotion criteria.
\<close>

definition two_exchange_router :: OrderRouter where
  "two_exchange_router =
     router_with_position
       \<lparr>config_exchanges := [''bybit'', ''okx''],
        exchanges := [(''bybit'', \<lparr>conn_exchange = ''bybit'', conn_env = TESTNET\<rparr>),
                      (''okx'', \<lparr>conn_exchange = ''okx'', conn_env = TESTNET\<rparr>)]\<rparr>"

definition promotable_router :: OrderRouter where
  "promotable_router = two_exchange_router\<lparr>env_manager := example_manager\<rparr>"

section \<open>The promotion gate\<close>

text \<open>
  C1. \<open>should_switch_to_mainnet\<close> is true exactly when the environment is TESTNET,
  auto-switch is enabled, the time elapsed since \<open>start_time\<close> is at least
  \<open>testnet_duration_hours\<close>, \<open>trade_count\<close> is at least \<open>min_trades_for_switch\<close> and
  \<open>max_drawdown_pct\<close> is at most \<open>max_drawdown_pct_for_switch\<close>. Moreover, from a state
  that passes, making any single criterion fail (the environment, the auto-switch flag,
  the clock, the trade count or the drawdown) while the others are kept gives false.
\<close>

theorem should_switch_to_mainnet_iff:
  "(should_switch_to_mainnet now m \<longleftrightarrow>
      environment (settings m) = TESTNET \<and> auto_switch_enabled (settings m)
      \<and> timedelta_hours (testnet_duration_hours (settings m)) \<le> now - start_time m
      \<and> min_trades_for_switch (settings m) \<le> trade_count m
      \<and> max_drawdown_pct m \<le> max_drawdown_pct_for_switch (settings m))
   \<and> (should_switch_to_mainnet now m \<longrightarrow>
      \<not> should_switch_to_mainnet now (m\<lparr>settings := (settings m)\<lparr>environment := MAINNET\<rparr>\<rparr>)
      \<and> \<not> should_switch_to_mainnet now (m\<lparr>settings := (settings m)\<lparr>auto_switch_enabled := False\<rparr>\<rparr>)
      \<and> (now' - start_time m < timedelta_hours (testnet_duration_hours (settings m))
            \<longrightarrow> \<not> should_switch_to_mainnet now' m)
      \<and> (t < min_trades_for_switch (settings m)
            \<longrightarrow> \<not> should_switch_to_mainnet now (m\<lparr>trade_count := t\<rparr>))
      \<and> (max_drawdown_pct_for_switch (settings m) < d
            \<longrightarrow> \<not> should_switch_to_mainnet now (m\<lparr>max_drawdown_pct := d\<rparr>)))"
  by (auto simp: should_switch_to_mainnet_def)

theorem should_switch_to_mainnet_iff_witness:
  "should_switch_to_mainnet (hours_us 72) example_manager
   \<and> \<not> should_switch_to_mainnet (hours_us 72) (example_manager\<lparr>max_drawdown_pct := 5\<rparr>)
   \<and> \<not> should_switch_to_mainnet (hours_us 72) (example_manager\<lparr>trade_count := 5\<rparr>)
   \<and> \<not> should_switch_to_mainnet (hours_us 24) example_manager
   \<and> \<not> should_switch_to_mainnet (hours_us 72)
         (example_manager\<lparr>settings := (settings example_manager)\<lparr>environment := MAINNET\<rparr>\<rparr>)
   \<and> \<not> should_switch_to_mainnet (hours_us 72)
         (example_manager\<lparr>settings := (settings example_manager)\<lparr>auto_switch_enabled := False\<rparr>\<rparr>)"
proof -
  have pass: "should_switch_to_mainnet (hours_us 72) example_manager"
    using should_switch_to_mainnet_iff [of "hours_us 72" example_manager]
    by (simp add: example_manager_def hours_us_def timedelta_hours_def)
  from should_switch_to_mainnet_iff [of "hours_us 72" example_manager "hours_us 24" 5 5] pass
  show ?thesis
    by (simp add: example_manager_def hours_us_def timedelta_hours_def)
qed

section \<open>Switching the environment\<close>

text \<open>
  C5, as the code has it. \<open>switch_environment(target)\<close> with the target equal to the
  current environment returns false and leaves the manager as it was: the switch counter,
  \<open>last_switch_time\<close> and the persisted configuration are untouched. \<open>set_environment\<close>
  has no such test: for every environment, the current one included, it sets
  \<open>last_switch_time\<close> to the present time and increments the switch counter by one.
  When \<open>save\<close> is true it also tries to write the configuration: the file receives one
  dump, of the settings with the new environment, if the configured path has a directory
  part and the file system lets the write complete, and nothing otherwise; with \<open>save\<close>
  false nothing is written.
\<close>

theorem switch_environment_same_env_noop:
  "(environment (settings m) = t \<longrightarrow> switch_environment now disk (Some t) m = (False, m))
   \<and> environment (settings (set_environment now disk env save m)) = env
   \<and> last_switch_time (set_environment now disk env save m) = now
   \<and> ENV_SWITCH_TOTAL (set_environment now disk env save m) = ENV_SWITCH_TOTAL m + 1
   \<and> config_writes (set_environment now disk env save m)
       = (if save \<and> disk \<and> dirname (config_path (settings m)) \<noteq> []
          then config_writes m
               @ [config_dump (m\<lparr>settings := (settings m)\<lparr>environment := env\<rparr>\<rparr>)]
          else config_writes m)"
proof (intro conjI impI)
  assume "environment (settings m) = t"
  then show "switch_environment now disk (Some t) m = (False, m)"
    by (simp add: switch_environment_def)
next
  show "environment (settings (set_environment now disk env save m)) = env"
    by (simp add: set_environment_def save_config_def Let_def)
  show "last_switch_time (set_environment now disk env save m) = now"
    by (simp add: set_environment_def save_config_def Let_def)
  show "ENV_SWITCH_TOTAL (set_environment now disk env save m) = ENV_SWITCH_TOTAL m + 1"
    by (simp add: set_environment_def save_config_def Let_def)
  show "config_writes (set_environment now disk env save m)
       = (if save \<and> disk \<and> dirname (config_path (settings m)) \<noteq> []
          then config_writes m
               @ [config_dump (m\<lparr>settings := (settings m)\<lparr>environment := env\<rparr>\<rparr>)]
          else config_writes m)"
    by (simp add: set_environment_def save_config_def config_dump_def Let_def)
qed

lemma dirname_example: "dirname ''config/env.yaml'' = ''config''"
  by (simp add: dirname_def Let_def)

lemma dirname_bare: "dirname ''env.yaml'' = []"
  by (simp add: dirname_def Let_def)

theorem switch_environment_same_env_noop_witness:
  "environment (settings example_manager) = TESTNET
   \<and> switch_environment (hours_us 72) True (Some TESTNET) example_manager
       = (False, example_manager)
   \<and> ENV_SWITCH_TOTAL (set_environment (hours_us 72) True MAINNET True example_manager) = 1
   \<and> length (config_writes (set_environment (hours_us 72) True MAINNET True example_manager)) = 1
   \<and> config_writes (set_environment (hours_us 72) False MAINNET True example_manager) = []
   \<and> config_writes (set_environment (hours_us 72) True MAINNET True
        (example_manager\<lparr>settings := (settings example_manager)\<lparr>config_path := ''env.yaml''\<rparr>\<rparr>))
       = []"
proof -
  have cur: "environment (settings example_manager) = TESTNET"
    by (simp add: example_manager_def)
  have path: "dirname (config_path (settings example_manager)) = ''config''"
    by (simp add: example_manager_def dirname_example)
  note A = switch_environment_same_env_noop
             [where m = example_manager and t = TESTNET and now = "hours_us 72"
                and disk = True and env = MAINNET and save = True]
  note B = switch_environment_same_env_noop
             [where m = example_manager and t = TESTNET and now = "hours_us 72"
                and disk = False and env = MAINNET and save = True]
  note C = switch_environment_same_env_noop
             [where m = "example_manager\<lparr>settings :=
                           (settings example_manager)\<lparr>config_path := ''env.yaml''\<rparr>\<rparr>"
                and t = TESTNET and now = "hours_us 72"
                and disk = True and env = MAINNET and save = True]
  from A cur path have a:
    "switch_environment (hours_us 72) True (Some TESTNET) example_manager
       = (False, example_manager)
     \<and> ENV_SWITCH_TOTAL (set_environment (hours_us 72) True MAINNET True example_manager) = 1
     \<and> length (config_writes (set_environment (hours_us 72) True MAINNET True
                                  example_manager)) = 1"
    by (simp add: example_manager_def)
  from B have b:
    "config_writes (set_environment (hours_us 72) False MAINNET True example_manager) = []"
    by (simp add: example_manager_def)
  from C have c:
    "config_writes (set_environment (hours_us 72) True MAINNET True
        (example_manager\<lparr>settings := (settings example_manager)\<lparr>config_path := ''env.yaml''\<rparr>\<rparr>))
       = []"
    by (simp add: example_manager_def dirname_bare)
  from cur a b c show ?thesis by simp
qed

text \<open>
  The claim as stated fails for \<open>set_environment\<close>: called with the environment the
  manager is already in, it increments the counter and moves \<open>last_switch_time\<close>, and
  with a writable configuration path it writes the configuration.
\<close>

theorem set_environment_same_env_counterexample:
  "environment (settings example_manager) = TESTNET
   \<and> ENV_SWITCH_TOTAL (set_environment (hours_us 72) True TESTNET True example_manager)
       \<noteq> ENV_SWITCH_TOTAL example_manager
   \<and> last_switch_time (set_environment (hours_us 72) True TESTNET True example_manager)
       \<noteq> last_switch_time example_manager
   \<and> config_writes (set_environment (hours_us 72) True TESTNET True example_manager)
       \<noteq> config_writes example_manager"
  by (simp add: example_manager_def set_environment_def save_config_def hours_us_def Let_def
        dirname_example)

section \<open>The trade counter\<close>

text \<open>
  C8. \<open>get_new_trade_count\<close> consumes: whatever the router's state, after one call the
  baseline is the length of the history; when \<open>N\<close> records are then appended the next
  call returns \<open>N\<close> and moves the baseline to the new length, and a call right after it
  returns 0. On a router fresh from its constructor the first call already returns the
  number of records appended since construction.
\<close>

theorem get_new_trade_count_consuming:
  "(let (n0, r0) = get_new_trade_count r;
        r1 = r0\<lparr>order_history := order_history r0 @ new_records\<rparr>;
        (n1, r2) = get_new_trade_count r1;
        (n2, r3) = get_new_trade_count r2
    in n1 = int (length new_records)
       \<and> total_trades r2 = int (length (order_history r1))
       \<and> order_history r2 = order_history r1
       \<and> n2 = 0)
   \<and> fst (get_new_trade_count
             ((OrderRouter_init em connectors names primary sname)
                \<lparr>order_history := new_records\<rparr>))
       = int (length new_records)"
  by (simp add: get_new_trade_count_def OrderRouter_init_def Let_def)

section \<open>Order placement with failover\<close>

lemma log_call_simps [simp]:
  "calls (log_call e r) = calls r @ [e]"
  "order_history (log_call e r) = order_history r"
  "exchanges (log_call e r) = exchanges r"
  "active_positions (log_call e r) = active_positions r"
  "primary_exchange (log_call e r) = primary_exchange r"
  "env_manager (log_call e r) = env_manager r"
  "total_trades (log_call e r) = total_trades r"
  "strategy (log_call e r) = strategy r"
  "config_exchanges (log_call e r) = config_exchanges r"
  "router_current_equity (log_call e r) = router_current_equity r"
  "router_peak_equity (log_call e r) = router_peak_equity r"
  "router_max_drawdown_pct (log_call e r) = router_max_drawdown_pct r"
  by (simp_all add: log_call_def)

lemma append_record_simps [simp]:
  "calls (append_record x r) = calls r"
  "order_history (append_record x r) = order_history r @ [x]"
  "exchanges (append_record x r) = exchanges r"
  "active_positions (append_record x r) = active_positions r"
  "primary_exchange (append_record x r) = primary_exchange r"
  "env_manager (append_record x r) = env_manager r"
  "total_trades (append_record x r) = total_trades r"
  "strategy (append_record x r) = strategy r"
  "config_exchanges (append_record x r) = config_exchanges r"
  "router_current_equity (append_record x r) = router_current_equity r"
  "router_peak_equity (append_record x r) = router_peak_equity r"
  "router_max_drawdown_pct (append_record x r) = router_max_drawdown_pct r"
  by (simp_all add: append_record_def)

lemma place_failover_filter:
  "place_failover w p excl xs r = place_failover w p excl (filter (\<lambda>x. fst x \<noteq> excl) xs) r"
proof (induction xs arbitrary: r)
  case Nil
  show ?case by simp
next
  case (Cons a xs)
  obtain name ex where a: "a = (name, ex)" by (cases a)
  show ?case
  proof (cases "name = excl")
    case True
    with a Cons show ?thesis by simp
  next
    case False
    with a Cons show ?thesis by (simp add: Let_def split: sum.splits)
  qed
qed

lemma place_failover_skip:
  "all_raise w p (calls r) pre \<Longrightarrow> \<forall>x\<in>set pre. fst x \<noteq> excl \<Longrightarrow>
   place_failover w p excl (pre @ rest) r
     = place_failover w p excl rest (r\<lparr>calls := calls r @ attempts p pre\<rparr>)"
proof (induction pre arbitrary: r)
  case Nil
  show ?case by (simp add: attempts_def)
next
  case (Cons a pre)
  obtain name ex where a: "a = (name, ex)" by (cases a)
  from Cons.prems a have ne: "name \<noteq> excl" by simp
  from Cons.prems a obtain e where e: "conn_place_order w (calls r) ex p = Inl e"
    by (cases "conn_place_order w (calls r) ex p") auto
  from Cons.prems a have rest_raise:
    "all_raise w p (calls (log_call (PlaceOrder name p) r)) pre" by simp
  from Cons.prems have rest_ne: "\<forall>x\<in>set pre. fst x \<noteq> excl" by simp
  have "place_failover w p excl ((a # pre) @ rest) r
          = place_failover w p excl (pre @ rest) (log_call (PlaceOrder name p) r)"
    using a ne e by (simp add: Let_def)
  also have "\<dots> = place_failover w p excl rest
       ((log_call (PlaceOrder name p) r)
          \<lparr>calls := calls (log_call (PlaceOrder name p) r) @ attempts p pre\<rparr>)"
    by (rule Cons.IH [OF rest_raise rest_ne])
  also have "(log_call (PlaceOrder name p) r)
          \<lparr>calls := calls (log_call (PlaceOrder name p) r) @ attempts p pre\<rparr>
        = r\<lparr>calls := calls r @ attempts p (a # pre)\<rparr>"
    using a by (simp add: log_call_def attempts_def)
  finally show ?case .
qed

lemma place_failover_history:
  "place_failover w p excl xs r = (out, r') \<Longrightarrow>
   (case out of
      None \<Rightarrow> order_history r' = order_history r
    | Some resp \<Rightarrow> \<exists>orec. order_history r' = order_history r @ [orec]
         \<and> rec_status orec = ''success'' \<and> rec_response orec = Some resp
         \<and> rec_failover orec = Some True)"
proof (induction xs arbitrary: r)
  case Nil
  then show ?case by auto
next
  case (Cons a xs)
  obtain name ex where a: "a = (name, ex)" by (cases a)
  show ?case
  proof (cases "name = excl")
    case True
    with a Cons show ?thesis by simp
  next
    case False
    show ?thesis
    proof (cases "conn_place_order w (calls r) ex p")
      case (Inl e)
      with a False Cons.prems
      have "place_failover w p excl xs (log_call (PlaceOrder name p) r) = (out, r')"
        by (simp add: Let_def)
      from Cons.IH [OF this] show ?thesis by (simp split: option.splits)
    next
      case (Inr resp)
      with a False Cons.prems show ?thesis by (auto simp: Let_def)
    qed
  qed
qed


lemma name_or_primary_idem:
  "name_or_primary r (Some (name_or_primary r n)) = name_or_primary r n"
  by (simp add: name_or_primary_def split: option.splits)

lemma get_exchange_resolved:
  "get_exchange r (Some (name_or_primary r n)) = map_of (exchanges r) (name_or_primary r n)"
  by (simp add: get_exchange_def name_or_primary_idem)

lemma place_failover_first_success:
  assumes split: "filter (\<lambda>x. fst x \<noteq> excl) xs = pre @ (name, ex) # post"
    and raise: "all_raise w p (calls r) pre"
    and ok: "conn_place_order w (calls r @ attempts p pre) ex p = Inr resp"
  shows "place_failover w p excl xs r =
           (Some resp,
            append_record
              \<lparr>rec_timestamp = time_time w (calls r @ attempts p pre @ [PlaceOrder name p]),
               rec_exchange = name, rec_order_id = None, rec_params = Some p,
               rec_response = Some resp, rec_status = ''success'',
               rec_failover = Some True, rec_type = None, rec_error = None\<rparr>
              (r\<lparr>calls := calls r @ attempts p pre @ [PlaceOrder name p]\<rparr>))"
proof -
  have "set (pre @ (name, ex) # post) = {x \<in> set xs. fst x \<noteq> excl}"
    using split [symmetric] by simp
  then have mem: "\<forall>x\<in>set (pre @ (name, ex) # post). fst x \<noteq> excl"
    by blast
  then have pre_ne: "\<forall>x\<in>set pre. fst x \<noteq> excl" and ne: "name \<noteq> excl" by auto
  have "place_failover w p excl xs r = place_failover w p excl (pre @ (name, ex) # post) r"
    using place_failover_filter [of w p excl xs r] split by simp
  also have "\<dots> = place_failover w p excl ((name, ex) # post)
                     (r\<lparr>calls := calls r @ attempts p pre\<rparr>)"
    by (rule place_failover_skip [OF raise pre_ne])
  also have "\<dots> = (Some resp,
            append_record
              \<lparr>rec_timestamp = time_time w (calls r @ attempts p pre @ [PlaceOrder name p]),
               rec_exchange = name, rec_order_id = None, rec_params = Some p,
               rec_response = Some resp, rec_status = ''success'',
               rec_failover = Some True, rec_type = None, rec_error = None\<rparr>
              (r\<lparr>calls := calls r @ attempts p pre @ [PlaceOrder name p]\<rparr>))"
    using ne ok by (simp add: Let_def log_call_def)
  finally show ?thesis .
qed

lemma place_failover_all_raise:
  assumes raise: "all_raise w p (calls r) (filter (\<lambda>x. fst x \<noteq> excl) xs)"
  shows "place_failover w p excl xs r
           = (None, r\<lparr>calls := calls r @ attempts p (filter (\<lambda>x. fst x \<noteq> excl) xs)\<rparr>)"
proof -
  have ne: "\<forall>x\<in>set (filter (\<lambda>x. fst x \<noteq> excl) xs). fst x \<noteq> excl" by simp
  have "place_failover w p excl xs r
          = place_failover w p excl (filter (\<lambda>x. fst x \<noteq> excl) xs @ []) r"
    using place_failover_filter [of w p excl xs r] by simp
  also have "\<dots> = place_failover w p excl []
                     (r\<lparr>calls := calls r @ attempts p (filter (\<lambda>x. fst x \<noteq> excl) xs)\<rparr>)"
    by (rule place_failover_skip [OF raise ne])
  finally show ?thesis by simp
qed


lemma place_order_one_record:
  assumes out: "place_order w r p n = (res, r')"
  shows "\<exists>orec. order_history r' = order_history r @ [orec]
           \<and> (rec_status orec = ''success'' \<and> rec_response orec = Some res
              \<or> rec_status orec = ''failed'' \<and> rec_response orec = None
                 \<and> (\<exists>msg. res = error_result msg))"
proof (cases "map_of (exchanges r) (name_or_primary r n)")
  case None
  obtain fo r1 where fo: "place_failover w p (name_or_primary r n) (exchanges r) r = (fo, r1)"
    by (cases "place_failover w p (name_or_primary r n) (exchanges r) r")
  from place_failover_history [OF fo] out None fo show ?thesis
    by (cases fo)
       (auto simp: place_order_def get_exchange_resolved Let_def failed_place_record_def)
next
  case (Some ex)
  let ?r0 = "log_call (PlaceOrder (name_or_primary r n) p) r"
  show ?thesis
  proof (cases "conn_place_order w (calls r) ex p")
    case (Inr resp)
    with out Some show ?thesis
      by (auto simp: place_order_def get_exchange_resolved Let_def)
  next
    case (Inl e)
    obtain fo r1 where fo:
      "place_failover w p (name_or_primary r n) (exchanges r) ?r0 = (fo, r1)"
      by (cases "place_failover w p (name_or_primary r n) (exchanges r) ?r0")
    from place_failover_history [OF fo] out Some Inl fo show ?thesis
      by (cases fo)
         (auto simp: place_order_def get_exchange_resolved Let_def failed_place_record_def)
  qed
qed

lemma place_order_failover_cases:
  assumes fails: "resolved_fails w r p (name_or_primary r n)"
  shows "\<exists>r0 e. calls r0 = after_resolved r p (name_or_primary r n)
            \<and> order_history r0 = order_history r
            \<and> place_order w r p n =
                (case place_failover w p (name_or_primary r n) (exchanges r) r0 of
                   (Some response, r1) \<Rightarrow> (response, r1)
                 | (None, r1) \<Rightarrow>
                     (error_result (fst e),
                      append_record
                        (failed_place_record (time_time w (calls r1)) (name_or_primary r n) p
                           (snd e)) r1))"
proof (cases "map_of (exchanges r) (name_or_primary r n)")
  case None
  have "calls r = after_resolved r p (name_or_primary r n)"
    using None by (simp add: after_resolved_def)
  moreover have "place_order w r p n =
      (case place_failover w p (name_or_primary r n) (exchanges r) r of
         (Some response, r1) \<Rightarrow> (response, r1)
       | (None, r1) \<Rightarrow>
           (error_result (fst (''All exchanges failed to place order'', ''All exchanges failed'')),
            append_record
              (failed_place_record (time_time w (calls r1)) (name_or_primary r n) p
                 (snd (''All exchanges failed to place order'', ''All exchanges failed''))) r1))"
    using None
    by (simp add: place_order_def get_exchange_resolved Let_def split: prod.splits option.splits)
  ultimately show ?thesis by blast
next
  case (Some ex)
  let ?r0 = "log_call (PlaceOrder (name_or_primary r n) p) r"
  from fails Some obtain e where e: "conn_place_order w (calls r) ex p = Inl e"
    by (cases "conn_place_order w (calls r) ex p") (auto simp: resolved_fails_def)
  have "calls ?r0 = after_resolved r p (name_or_primary r n)"
    using Some by (simp add: after_resolved_def)
  moreover have "order_history ?r0 = order_history r" by simp
  moreover have "place_order w r p n =
      (case place_failover w p (name_or_primary r n) (exchanges r) ?r0 of
         (Some response, r1) \<Rightarrow> (response, r1)
       | (None, r1) \<Rightarrow>
           (error_result (fst (e, e)),
            append_record
              (failed_place_record (time_time w (calls r1)) (name_or_primary r n) p
                 (snd (e, e))) r1))"
    using Some e
    by (simp add: place_order_def get_exchange_resolved Let_def split: prod.splits option.splits)
  ultimately show ?thesis by blast
qed

text \<open>
  C2. \<open>place_order\<close> returns a dictionary on every path (the exceptions of the
  connectors are caught), and every call appends exactly one record to \<open>order_history\<close>:
  a \<open>success\<close> record holding the response returned, or a \<open>failed\<close> record next to
  an error result with a message. When the resolved exchange is absent or raises, the
  other configured exchanges are tried in the order of the dictionary: if those before
  \<open>name\<close> raise and \<open>name\<close> answers, its response is returned, nothing after it is
  called, and the one record names it with \<open>failover = True\<close>; if all of them raise, an
  error result is returned after each has been tried once, with one \<open>failed\<close> record.
\<close>

theorem place_order_failover:
  assumes out: "place_order w r p n = (res, r')"
  shows
  "(\<exists>orec. order_history r' = order_history r @ [orec]
      \<and> (rec_status orec = ''success'' \<and> rec_response orec = Some res
         \<or> rec_status orec = ''failed'' \<and> rec_response orec = None
            \<and> (\<exists>msg. res = error_result msg)))
   \<and> (resolved_fails w r p (name_or_primary r n)
       \<and> others r (name_or_primary r n) = pre @ (name, ex) # post
       \<and> all_raise w p (after_resolved r p (name_or_primary r n)) pre
       \<and> conn_place_order w (after_resolved r p (name_or_primary r n) @ attempts p pre) ex p
           = Inr resp
      \<longrightarrow> res = resp
          \<and> calls r' = after_resolved r p (name_or_primary r n) @ attempts p pre
                          @ [PlaceOrder name p]
          \<and> (\<exists>orec. order_history r' = order_history r @ [orec]
                \<and> rec_exchange orec = name \<and> rec_status orec = ''success''
                \<and> rec_failover orec = Some True \<and> rec_response orec = Some resp))
   \<and> (resolved_fails w r p (name_or_primary r n)
       \<and> all_raise w p (after_resolved r p (name_or_primary r n))
             (others r (name_or_primary r n))
      \<longrightarrow> (\<exists>msg. res = error_result msg)
          \<and> calls r' = after_resolved r p (name_or_primary r n)
                          @ attempts p (others r (name_or_primary r n))
          \<and> (\<exists>orec. order_history r' = order_history r @ [orec]
                \<and> rec_exchange orec = name_or_primary r n \<and> rec_status orec = ''failed''
                \<and> rec_failover orec = Some False \<and> rec_response orec = None))"
proof (intro conjI impI)
  show "\<exists>orec. order_history r' = order_history r @ [orec]
      \<and> (rec_status orec = ''success'' \<and> rec_response orec = Some res
         \<or> rec_status orec = ''failed'' \<and> rec_response orec = None
            \<and> (\<exists>msg. res = error_result msg))"
    by (rule place_order_one_record [OF out])
next
  let ?nm = "name_or_primary r n"
  assume h: "resolved_fails w r p ?nm
       \<and> others r ?nm = pre @ (name, ex) # post
       \<and> all_raise w p (after_resolved r p ?nm) pre
       \<and> conn_place_order w (after_resolved r p ?nm @ attempts p pre) ex p = Inr resp"
  from place_order_failover_cases [of w r p n] h obtain r0 e where
    r0: "calls r0 = after_resolved r p ?nm" "order_history r0 = order_history r"
    and po: "place_order w r p n =
                (case place_failover w p ?nm (exchanges r) r0 of
                   (Some response, r1) \<Rightarrow> (response, r1)
                 | (None, r1) \<Rightarrow>
                     (error_result (fst e),
                      append_record
                        (failed_place_record (time_time w (calls r1)) ?nm p (snd e)) r1))"
    by blast
  have split: "filter (\<lambda>x. fst x \<noteq> ?nm) (exchanges r) = pre @ (name, ex) # post"
    using h by (simp add: others_def)
  have raise: "all_raise w p (calls r0) pre" using h r0 by simp
  have ok: "conn_place_order w (calls r0 @ attempts p pre) ex p = Inr resp" using h r0 by simp
  note fs = place_failover_first_success [OF split raise ok]
  from out po fs r0
  show "res = resp" by simp
  from out po fs r0
  show "calls r' = after_resolved r p ?nm @ attempts p pre @ [PlaceOrder name p]" by auto
  from out po fs r0
  show "\<exists>orec. order_history r' = order_history r @ [orec]
                \<and> rec_exchange orec = name \<and> rec_status orec = ''success''
                \<and> rec_failover orec = Some True \<and> rec_response orec = Some resp" by auto
next
  let ?nm = "name_or_primary r n"
  assume h: "resolved_fails w r p ?nm \<and> all_raise w p (after_resolved r p ?nm) (others r ?nm)"
  from place_order_failover_cases [of w r p n] h obtain r0 e where
    r0: "calls r0 = after_resolved r p ?nm" "order_history r0 = order_history r"
    and po: "place_order w r p n =
                (case place_failover w p ?nm (exchanges r) r0 of
                   (Some response, r1) \<Rightarrow> (response, r1)
                 | (None, r1) \<Rightarrow>
                     (error_result (fst e),
                      append_record
                        (failed_place_record (time_time w (calls r1)) ?nm p (snd e)) r1))"
    by blast
  have raise: "all_raise w p (calls r0) (filter (\<lambda>x. fst x \<noteq> ?nm) (exchanges r))"
    using h r0 by (simp add: others_def)
  note fa = place_failover_all_raise [OF raise]
  from out po fa r0
  show "\<exists>msg. res = error_result msg" by auto
  from out po fa r0
  show "calls r' = after_resolved r p ?nm @ attempts p (others r ?nm)"
    by (auto simp: others_def)
  from out po fa r0
  show "\<exists>orec. order_history r' = order_history r @ [orec]
                \<and> rec_exchange orec = ?nm \<and> rec_status orec = ''failed''
                \<and> rec_failover orec = Some False \<and> rec_response orec = None"
    by (auto simp: failed_place_record_def)
qed


lemma example_router_eq:
  "example_router =
    \<lparr>config_exchanges = [''bybit'', ''okx'', ''binance''],
     env_manager = example_manager\<lparr>trade_count := 0, max_drawdown_pct := 0\<rparr>,
     exchanges =
       [(''bybit'', \<lparr>conn_exchange = ''bybit'', conn_env = TESTNET\<rparr>),
        (''okx'', \<lparr>conn_exchange = ''okx'', conn_env = TESTNET\<rparr>),
        (''binance'', \<lparr>conn_exchange = ''binance'', conn_env = TESTNET\<rparr>)],
     primary_exchange = ''bybit'', strategy = Some ''trend_rsi'',
     active_positions = [], order_history = [], total_trades = 0,
     router_current_equity = 0, router_peak_equity = 0,
     router_max_drawdown_pct = 0, calls = []\<rparr>"
  by (simp add: example_router_def OrderRouter_init_def example_manager_def
        env_update_performance_metrics_def lower_def lower_char_def Let_def)

theorem place_order_failover_witness:
  "fst (place_order primary_down_world example_router example_params None)
     = [(''status'', PStr ''ok''), (''order_id'', PStr ''okx-1'')]
   \<and> calls (snd (place_order primary_down_world example_router example_params None))
     = [PlaceOrder ''bybit'' example_params, PlaceOrder ''okx'' example_params]
   \<and> (\<exists>orec. order_history (snd (place_order primary_down_world example_router
                                      example_params None)) = [orec]
         \<and> rec_exchange orec = ''okx'' \<and> rec_status orec = ''success''
         \<and> rec_failover orec = Some True)
   \<and> (\<exists>msg. fst (place_order all_down_world example_router example_params None)
               = error_result msg)
   \<and> calls (snd (place_order all_down_world example_router example_params None))
     = [PlaceOrder ''bybit'' example_params, PlaceOrder ''okx'' example_params,
        PlaceOrder ''binance'' example_params]
   \<and> (\<exists>orec. order_history (snd (place_order all_down_world example_router
                                      example_params None)) = [orec]
         \<and> rec_exchange orec = ''bybit'' \<and> rec_status orec = ''failed'')"
proof -
  let ?okx = "\<lparr>conn_exchange = ''okx'', conn_env = TESTNET\<rparr>"
  let ?bin = "\<lparr>conn_exchange = ''binance'', conn_env = TESTNET\<rparr>"
  let ?A = "place_order primary_down_world example_router example_params None"
  let ?B = "place_order all_down_world example_router example_params None"
  have nm: "name_or_primary example_router None = ''bybit''"
    by (simp add: example_router_eq name_or_primary_def)
  have hA: "resolved_fails primary_down_world example_router example_params ''bybit''
      \<and> others example_router ''bybit'' = [] @ (''okx'', ?okx) # [(''binance'', ?bin)]
      \<and> all_raise primary_down_world example_params
            (after_resolved example_router example_params ''bybit'') []
      \<and> conn_place_order primary_down_world
            (after_resolved example_router example_params ''bybit'' @ attempts example_params [])
            ?okx example_params = Inr [(''status'', PStr ''ok''), (''order_id'', PStr ''okx-1'')]"
    by (simp add: example_router_eq resolved_fails_def others_def primary_down_world_def
          simple_world_def order_ok_def)
  have hB: "resolved_fails all_down_world example_router example_params ''bybit''
      \<and> all_raise all_down_world example_params
            (after_resolved example_router example_params ''bybit'')
            (others example_router ''bybit'')"
    by (simp add: example_router_eq resolved_fails_def others_def all_down_world_def
          simple_world_def)
  have cA: "after_resolved example_router example_params ''bybit''
              = [PlaceOrder ''bybit'' example_params]"
    by (simp add: example_router_eq after_resolved_def)
  have oth: "others example_router ''bybit'' = [(''okx'', ?okx), (''binance'', ?bin)]"
    by (simp add: example_router_eq others_def)
  have h0: "order_history example_router = []"
    by (simp add: example_router_eq)
  from place_order_failover [of primary_down_world example_router example_params None
         "fst ?A" "snd ?A" "[]" "''okx''" ?okx "[(''binance'', ?bin)]"
         "[(''status'', PStr ''ok''), (''order_id'', PStr ''okx-1'')]"] hA nm
  have A: "fst ?A = [(''status'', PStr ''ok''), (''order_id'', PStr ''okx-1'')]
     \<and> calls (snd ?A) = after_resolved example_router example_params ''bybit''
           @ attempts example_params [] @ [PlaceOrder ''okx'' example_params]
     \<and> (\<exists>orec. order_history (snd ?A) = order_history example_router @ [orec]
           \<and> rec_exchange orec = ''okx'' \<and> rec_status orec = ''success''
           \<and> rec_failover orec = Some True
           \<and> rec_response orec = Some [(''status'', PStr ''ok''), (''order_id'', PStr ''okx-1'')])"
    by simp
  from place_order_failover [of all_down_world example_router example_params None
         "fst ?B" "snd ?B"] hB nm
  have B: "(\<exists>msg. fst ?B = error_result msg)
     \<and> calls (snd ?B) = after_resolved example_router example_params ''bybit''
           @ attempts example_params (others example_router ''bybit'')
     \<and> (\<exists>orec. order_history (snd ?B) = order_history example_router @ [orec]
           \<and> rec_exchange orec = ''bybit'' \<and> rec_status orec = ''failed''
           \<and> rec_failover orec = Some False \<and> rec_response orec = None)"
    by simp
  from A B show ?thesis
    by (simp add: cA oth h0 attempts_def) blast
qed

section \<open>Updating and cancelling orders\<close>

text \<open>
  C6. When the connector of the resolved exchange raises, \<open>update_order\<close> and
  \<open>cancel_order\<close> return an error result with the exception's text at once: the one
  call on the resolved exchange is the only call made, no other configured exchange is
  tried, and exactly one \<open>failed\<close> record is appended.
\<close>

theorem update_cancel_no_failover:
  assumes ex: "map_of (exchanges r) (name_or_primary r n) = Some ex"
  shows
  "(conn_update_order w (calls r) ex oid ps = Inl e \<longrightarrow>
      fst (update_order w r oid ps n) = error_result e
      \<and> calls (snd (update_order w r oid ps n))
          = calls r @ [UpdateOrder (name_or_primary r n) oid ps]
      \<and> (\<exists>orec. order_history (snd (update_order w r oid ps n)) = order_history r @ [orec]
            \<and> rec_status orec = ''failed'' \<and> rec_type orec = Some ''update''
            \<and> rec_exchange orec = name_or_primary r n \<and> rec_error orec = Some e))
   \<and> (conn_cancel_order w (calls r) ex oid = Inl e \<longrightarrow>
      fst (cancel_order w r oid n) = error_result e
      \<and> calls (snd (cancel_order w r oid n))
          = calls r @ [CancelOrder (name_or_primary r n) oid]
      \<and> (\<exists>orec. order_history (snd (cancel_order w r oid n)) = order_history r @ [orec]
            \<and> rec_status orec = ''failed'' \<and> rec_type orec = Some ''cancel''
            \<and> rec_exchange orec = name_or_primary r n \<and> rec_error orec = Some e))"
proof (intro conjI impI)
  assume up: "conn_update_order w (calls r) ex oid ps = Inl e"
  have eq: "update_order w r oid ps n =
      (error_result e,
       append_record
         \<lparr>rec_timestamp = time_time w (calls r @ [UpdateOrder (name_or_primary r n) oid ps]),
          rec_exchange = name_or_primary r n,
          rec_order_id = Some oid, rec_params = Some ps,
          rec_response = None, rec_status = ''failed'',
          rec_failover = None, rec_type = Some ''update'', rec_error = Some e\<rparr>
         (log_call (UpdateOrder (name_or_primary r n) oid ps) r))"
    using ex up by (simp add: update_order_def get_exchange_resolved Let_def)
  show "fst (update_order w r oid ps n) = error_result e" by (simp add: eq)
  show "calls (snd (update_order w r oid ps n))
          = calls r @ [UpdateOrder (name_or_primary r n) oid ps]" by (simp add: eq)
  show "\<exists>orec. order_history (snd (update_order w r oid ps n)) = order_history r @ [orec]
            \<and> rec_status orec = ''failed'' \<and> rec_type orec = Some ''update''
            \<and> rec_exchange orec = name_or_primary r n \<and> rec_error orec = Some e"
    by (simp add: eq)
next
  assume ca: "conn_cancel_order w (calls r) ex oid = Inl e"
  have eq: "cancel_order w r oid n =
      (error_result e,
       append_record
         \<lparr>rec_timestamp = time_time w (calls r @ [CancelOrder (name_or_primary r n) oid]),
          rec_exchange = name_or_primary r n,
          rec_order_id = Some oid, rec_params = None,
          rec_response = None, rec_status = ''failed'',
          rec_failover = None, rec_type = Some ''cancel'', rec_error = Some e\<rparr>
         (log_call (CancelOrder (name_or_primary r n) oid) r))"
    using ex ca by (simp add: cancel_order_def get_exchange_resolved Let_def)
  show "fst (cancel_order w r oid n) = error_result e" by (simp add: eq)
  show "calls (snd (cancel_order w r oid n))
          = calls r @ [CancelOrder (name_or_primary r n) oid]" by (simp add: eq)
  show "\<exists>orec. order_history (snd (cancel_order w r oid n)) = order_history r @ [orec]
            \<and> rec_status orec = ''failed'' \<and> rec_type orec = Some ''cancel''
            \<and> rec_exchange orec = name_or_primary r n \<and> rec_error orec = Some e"
    by (simp add: eq)
qed

theorem update_cancel_no_failover_witness:
  "fst (update_order primary_down_world example_router (PStr ''42'')
          [(''stop_price'', PFloat 95)] None)
     = error_result ''bybit is down''
   \<and> calls (snd (update_order primary_down_world example_router (PStr ''42'')
          [(''stop_price'', PFloat 95)] None))
     = [UpdateOrder ''bybit'' (PStr ''42'') [(''stop_price'', PFloat 95)]]
   \<and> fst (cancel_order primary_down_world example_router (PStr ''42'') None)
     = error_result ''bybit is down''
   \<and> calls (snd (cancel_order primary_down_world example_router (PStr ''42'') None))
     = [CancelOrder ''bybit'' (PStr ''42'')]
   \<and> conn_update_order primary_down_world [] \<lparr>conn_exchange = ''okx'', conn_env = TESTNET\<rparr>
        (PStr ''42'') [(''stop_price'', PFloat 95)] = order_ok ''okx-2''"
proof -
  let ?by = "\<lparr>conn_exchange = ''bybit'', conn_env = TESTNET\<rparr>"
  have nm: "name_or_primary example_router None = ''bybit''"
    by (simp add: example_router_eq name_or_primary_def)
  have ex: "map_of (exchanges example_router) (name_or_primary example_router None) = Some ?by"
    by (simp add: nm) (simp add: example_router_eq)
  have up: "conn_update_order primary_down_world (calls example_router) ?by (PStr ''42'')
              [(''stop_price'', PFloat 95)] = Inl ''bybit is down''"
    and ca: "conn_cancel_order primary_down_world (calls example_router) ?by (PStr ''42'')
              = Inl ''bybit is down''"
    by (simp_all add: primary_down_world_def simple_world_def)
  have c0: "calls example_router = []" by (simp add: example_router_eq)
  from update_cancel_no_failover [OF ex, of primary_down_world "PStr ''42''"
         "[(''stop_price'', PFloat 95)]" "''bybit is down''"] up ca
  show ?thesis
    by (simp add: nm c0 primary_down_world_def simple_world_def)
qed

section \<open>Performance metrics\<close>

lemma poll_equity_frame:
  "router_peak_equity (poll_equity w xs r) = router_peak_equity r
   \<and> router_max_drawdown_pct (poll_equity w xs r) = router_max_drawdown_pct r
   \<and> total_trades (poll_equity w xs r) = total_trades r
   \<and> env_manager (poll_equity w xs r) = env_manager r
   \<and> order_history (poll_equity w xs r) = order_history r
   \<and> active_positions (poll_equity w xs r) = active_positions r
   \<and> exchanges (poll_equity w xs r) = exchanges r"
proof (induction xs arbitrary: r)
  case Nil
  show ?case by simp
next
  case (Cons a xs)
  obtain name ex where a: "a = (name, ex)" by (cases a)
  show ?case
  proof (cases "conn_equity w (calls r) ex")
    case (Inl e)
    with a Cons [of "log_call (GetAccountInfo name) r"] show ?thesis
      by (simp add: Let_def)
  next
    case (Inr equity)
    with a show ?thesis by (simp add: Let_def)
  qed
qed

lemma poll_equity_all_raise:
  "\<forall>h. \<forall>x\<in>set xs. isl (conn_equity w h (snd x)) \<Longrightarrow>
   poll_equity w xs r = r\<lparr>calls := calls r @ map (\<lambda>x. GetAccountInfo (fst x)) xs\<rparr>"
proof (induction xs arbitrary: r)
  case Nil
  show ?case by simp
next
  case (Cons a xs)
  obtain name ex where a: "a = (name, ex)" by (cases a)
  from Cons.prems a have "isl (conn_equity w (calls r) ex)" by simp
  then obtain e where e: "conn_equity w (calls r) ex = Inl e"
    by (cases "conn_equity w (calls r) ex") auto
  from Cons.prems have rest: "\<forall>h. \<forall>x\<in>set xs. isl (conn_equity w h (snd x))" by simp
  have "poll_equity w (a # xs) r = poll_equity w xs (log_call (GetAccountInfo name) r)"
    using a e by (simp add: Let_def)
  also have "\<dots> = (log_call (GetAccountInfo name) r)
       \<lparr>calls := calls (log_call (GetAccountInfo name) r)
                   @ map (\<lambda>x. GetAccountInfo (fst x)) xs\<rparr>"
    by (rule Cons.IH [OF rest])
  also have "\<dots> = r\<lparr>calls := calls r @ map (\<lambda>x. GetAccountInfo (fst x)) (a # xs)\<rparr>"
    using a by (simp add: log_call_def)
  finally show ?case .
qed

lemma update_performance_metrics_drawdown:
  "router_max_drawdown_pct (update_performance_metrics w r)
     = (if router_peak_equity (update_performance_metrics w r) > 0
        then max (router_max_drawdown_pct r)
               ((router_peak_equity (update_performance_metrics w r)
                   - router_current_equity (update_performance_metrics w r))
                  / router_peak_equity (update_performance_metrics w r) * 100)
        else router_max_drawdown_pct r)"
  by (simp add: update_performance_metrics_def Let_def poll_equity_frame)

lemma update_performance_metrics_mono:
  "router_max_drawdown_pct r \<le> router_max_drawdown_pct (update_performance_metrics w r)"
  by (subst update_performance_metrics_drawdown) simp

lemma update_performance_metrics_iter_mono:
  "router_max_drawdown_pct r
     \<le> router_max_drawdown_pct ((update_performance_metrics w ^^ k) r)"
proof (induction k)
  case 0
  show ?case by simp
next
  case (Suc k)
  have "router_max_drawdown_pct ((update_performance_metrics w ^^ k) r)
          \<le> router_max_drawdown_pct ((update_performance_metrics w ^^ Suc k) r)"
    by (simp add: update_performance_metrics_mono)
  with Suc show ?case by linarith
qed

lemma update_performance_metrics_env:
  "max_drawdown_pct (env_manager (update_performance_metrics w r))
     = router_max_drawdown_pct (update_performance_metrics w r)
   \<and> current_equity (env_manager (update_performance_metrics w r))
     = router_current_equity (update_performance_metrics w r)
   \<and> trade_count (env_manager (update_performance_metrics w r)) = total_trades r"
  by (simp add: update_performance_metrics_def Let_def poll_equity_frame
        env_update_performance_metrics_def)

lemma update_performance_metrics_first_answer:
  assumes xs: "exchanges r = (name, ex) # rest"
    and eq: "conn_equity w (calls r) ex = Inr equity"
  shows "router_current_equity (update_performance_metrics w r) = equity
     \<and> router_peak_equity (update_performance_metrics w r) = max (router_peak_equity r) equity
     \<and> calls (update_performance_metrics w r) = calls r @ [GetAccountInfo name]
     \<and> exchanges (update_performance_metrics w r) = exchanges r"
  using xs eq by (simp add: update_performance_metrics_def Let_def max_def)

text \<open>
  C7. \<open>update_performance_metrics\<close> keeps \<open>max_drawdown_pct\<close> as a running maximum:
  after a call it is the larger of its old value and
  \<open>(peak_equity - current_equity) / peak_equity * 100\<close> (unchanged while the peak is not
  positive), it is what the environment manager receives, and so it never decreases over
  any number of calls. From the zero state of a new router, the equities 1000, 1200, 900
  and 1100 observed in four successive calls give 0, 0, 25 and 25.
\<close>

theorem max_drawdown_running_maximum:
  "router_max_drawdown_pct r
     \<le> router_max_drawdown_pct ((update_performance_metrics w ^^ k) r)
   \<and> router_max_drawdown_pct (update_performance_metrics w r)
     = (if router_peak_equity (update_performance_metrics w r) > 0
        then max (router_max_drawdown_pct r)
               ((router_peak_equity (update_performance_metrics w r)
                   - router_current_equity (update_performance_metrics w r))
                  / router_peak_equity (update_performance_metrics w r) * 100)
        else router_max_drawdown_pct r)
   \<and> max_drawdown_pct (env_manager (update_performance_metrics w r))
     = router_max_drawdown_pct (update_performance_metrics w r)
   \<and> (let W = equity_world [1000, 1200, 900, 1100];
           r1 = update_performance_metrics W example_router;
           r2 = update_performance_metrics W r1;
           r3 = update_performance_metrics W r2;
           r4 = update_performance_metrics W r3
       in router_max_drawdown_pct example_router = 0
          \<and> router_max_drawdown_pct r1 = 0 \<and> router_max_drawdown_pct r2 = 0
          \<and> router_max_drawdown_pct r3 = 25 \<and> router_max_drawdown_pct r4 = 25
          \<and> max_drawdown_pct (env_manager r3) = 25
          \<and> max_drawdown_pct (env_manager r4) = 25)"
proof (intro conjI)
  show "router_max_drawdown_pct r
          \<le> router_max_drawdown_pct ((update_performance_metrics w ^^ k) r)"
    by (rule update_performance_metrics_iter_mono)
  show "router_max_drawdown_pct (update_performance_metrics w r)
     = (if router_peak_equity (update_performance_metrics w r) > 0
        then max (router_max_drawdown_pct r)
               ((router_peak_equity (update_performance_metrics w r)
                   - router_current_equity (update_performance_metrics w r))
                  / router_peak_equity (update_performance_metrics w r) * 100)
        else router_max_drawdown_pct r)"
    by (rule update_performance_metrics_drawdown)
  show "max_drawdown_pct (env_manager (update_performance_metrics w r))
     = router_max_drawdown_pct (update_performance_metrics w r)"
    by (simp add: update_performance_metrics_env)
next
  define W where "W = equity_world [1000, 1200, 900, 1100]"
  define r1 where "r1 = update_performance_metrics W example_router"
  define r2 where "r2 = update_performance_metrics W r1"
  define r3 where "r3 = update_performance_metrics W r2"
  define r4 where "r4 = update_performance_metrics W r3"
  let ?by = "\<lparr>conn_exchange = ''bybit'', conn_env = TESTNET\<rparr>"
  let ?rest = "[(''okx'', \<lparr>conn_exchange = ''okx'', conn_env = TESTNET\<rparr>),
                (''binance'', \<lparr>conn_exchange = ''binance'', conn_env = TESTNET\<rparr>)]"
  have answer: "\<And>h. conn_equity W h ?by
     = (if length (filter is_account_info h) < 4
        then Inr ([1000, 1200, 900, 1100] ! length (filter is_account_info h))
        else Inl ''down'')"
    by (simp add: W_def equity_world_def simple_world_def Let_def)
  have s0: "exchanges example_router = (''bybit'', ?by) # ?rest" "calls example_router = []"
    "router_peak_equity example_router = 0" "router_max_drawdown_pct example_router = 0"
    by (simp_all add: example_router_eq)
  have a1: "conn_equity W (calls example_router) ?by = Inr 1000"
    by (simp add: answer s0)
  note f1 = update_performance_metrics_first_answer [OF s0(1) a1, folded r1_def]
  have d1: "router_max_drawdown_pct r1 = 0"
    unfolding r1_def by (subst update_performance_metrics_drawdown) (simp add: f1 [unfolded r1_def] s0)
  have c1: "calls r1 = [GetAccountInfo ''bybit'']" "exchanges r1 = (''bybit'', ?by) # ?rest"
    "router_peak_equity r1 = 1000"
    using f1 by (simp_all add: s0)
  have a2: "conn_equity W (calls r1) ?by = Inr 1200"
    by (simp add: answer c1 is_account_info_def)
  note f2 = update_performance_metrics_first_answer [OF c1(2) a2, folded r2_def]
  have d2: "router_max_drawdown_pct r2 = 0"
    unfolding r2_def
    by (subst update_performance_metrics_drawdown) (simp add: f2 [unfolded r2_def] c1 d1)
  have c2: "calls r2 = [GetAccountInfo ''bybit'', GetAccountInfo ''bybit'']"
    "exchanges r2 = (''bybit'', ?by) # ?rest" "router_peak_equity r2 = 1200"
    using f2 by (simp_all add: c1)
  have a3: "conn_equity W (calls r2) ?by = Inr 900"
    by (simp add: answer c2 is_account_info_def)
  note f3 = update_performance_metrics_first_answer [OF c2(2) a3, folded r3_def]
  have d3: "router_max_drawdown_pct r3 = 25"
    unfolding r3_def
    by (subst update_performance_metrics_drawdown) (simp add: f3 [unfolded r3_def] c2 d2)
  have c3: "calls r3 = [GetAccountInfo ''bybit'', GetAccountInfo ''bybit'', GetAccountInfo ''bybit'']"
    "exchanges r3 = (''bybit'', ?by) # ?rest" "router_peak_equity r3 = 1200"
    using f3 by (simp_all add: c2)
  have a4: "conn_equity W (calls r3) ?by = Inr 1100"
    by (simp add: answer c3 is_account_info_def)
  note f4 = update_performance_metrics_first_answer [OF c3(2) a4, folded r4_def]
  have d4: "router_max_drawdown_pct r4 = 25"
    unfolding r4_def
    by (subst update_performance_metrics_drawdown) (simp add: f4 [unfolded r4_def] c3 d3)
  have e3: "max_drawdown_pct (env_manager r3) = 25" "max_drawdown_pct (env_manager r4) = 25"
    using d3 d4 by (simp_all add: r3_def r4_def update_performance_metrics_env)
  show "let W = equity_world [1000, 1200, 900, 1100];
           r1 = update_performance_metrics W example_router;
           r2 = update_performance_metrics W r1;
           r3 = update_performance_metrics W r2;
           r4 = update_performance_metrics W r3
       in router_max_drawdown_pct example_router = 0
          \<and> router_max_drawdown_pct r1 = 0 \<and> router_max_drawdown_pct r2 = 0
          \<and> router_max_drawdown_pct r3 = 25 \<and> router_max_drawdown_pct r4 = 25
          \<and> max_drawdown_pct (env_manager r3) = 25
          \<and> max_drawdown_pct (env_manager r4) = 25"
    using s0 d1 d2 d3 d4 e3
    by (simp add: Let_def W_def [symmetric] r1_def [symmetric] r2_def [symmetric]
          r3_def [symmetric] r4_def [symmetric])
qed

text \<open>
  C10. When \<open>get_account_info\<close> raises on every configured exchange,
  \<open>update_performance_metrics\<close> still completes, after each exchange has been polled
  once: \<open>current_equity\<close> keeps its previous value, the peak and the drawdown are
  recomputed against that value, and the environment manager receives the equity, the
  trade count and the drawdown.
\<close>

theorem update_performance_metrics_all_raise:
  assumes down: "\<forall>h. \<forall>x\<in>set (exchanges r). isl (conn_equity w h (snd x))"
  shows "router_current_equity (update_performance_metrics w r) = router_current_equity r
     \<and> router_peak_equity (update_performance_metrics w r)
         = max (router_peak_equity r) (router_current_equity r)
     \<and> router_max_drawdown_pct (update_performance_metrics w r)
         = (if max (router_peak_equity r) (router_current_equity r) > 0
            then max (router_max_drawdown_pct r)
                   ((max (router_peak_equity r) (router_current_equity r)
                       - router_current_equity r)
                      / max (router_peak_equity r) (router_current_equity r) * 100)
            else router_max_drawdown_pct r)
     \<and> current_equity (env_manager (update_performance_metrics w r)) = router_current_equity r
     \<and> trade_count (env_manager (update_performance_metrics w r)) = total_trades r
     \<and> max_drawdown_pct (env_manager (update_performance_metrics w r))
         = router_max_drawdown_pct (update_performance_metrics w r)
     \<and> calls (update_performance_metrics w r)
         = calls r @ map (\<lambda>x. GetAccountInfo (fst x)) (exchanges r)"
proof -
  let ?r' = "update_performance_metrics w r"
  have poll: "poll_equity w (exchanges r) r
                = r\<lparr>calls := calls r @ map (\<lambda>x. GetAccountInfo (fst x)) (exchanges r)\<rparr>"
    by (rule poll_equity_all_raise [OF down])
  have cur: "router_current_equity ?r' = router_current_equity r"
    by (simp add: update_performance_metrics_def Let_def poll)
  have peak: "router_peak_equity ?r' = max (router_peak_equity r) (router_current_equity r)"
    by (simp add: update_performance_metrics_def Let_def poll max_def)
  have log: "calls ?r' = calls r @ map (\<lambda>x. GetAccountInfo (fst x)) (exchanges r)"
    by (simp add: update_performance_metrics_def Let_def poll)
  have dd: "router_max_drawdown_pct ?r'
         = (if max (router_peak_equity r) (router_current_equity r) > 0
            then max (router_max_drawdown_pct r)
                   ((max (router_peak_equity r) (router_current_equity r)
                       - router_current_equity r)
                      / max (router_peak_equity r) (router_current_equity r) * 100)
            else router_max_drawdown_pct r)"
    by (subst update_performance_metrics_drawdown) (simp only: cur peak)
  from cur peak dd log update_performance_metrics_env [of w r] show ?thesis by simp
qed

theorem update_performance_metrics_all_raise_witness:
  "router_current_equity (update_performance_metrics all_down_world stale_router) = 900
   \<and> router_peak_equity (update_performance_metrics all_down_world stale_router) = 1200
   \<and> router_max_drawdown_pct (update_performance_metrics all_down_world stale_router) = 25
   \<and> current_equity (env_manager (update_performance_metrics all_down_world stale_router)) = 900
   \<and> trade_count (env_manager (update_performance_metrics all_down_world stale_router)) = 7
   \<and> max_drawdown_pct (env_manager (update_performance_metrics all_down_world stale_router)) = 25"
proof -
  have down: "\<forall>h. \<forall>x\<in>set (exchanges stale_router). isl (conn_equity all_down_world h (snd x))"
    by (simp add: stale_router_def all_down_world_def simple_world_def)
  have vals: "router_current_equity stale_router = 900" "router_peak_equity stale_router = 1200"
    "router_max_drawdown_pct stale_router = 0" "total_trades stale_router = 7"
    by (simp_all add: stale_router_def example_router_eq)
  from update_performance_metrics_all_raise [OF down] show ?thesis
    by (simp add: vals)
qed

section \<open>What the operations leave alone\<close>

lemma keeps_setup_refl [simp]: "keeps_setup r r"
  by (simp add: keeps_setup_def)

lemma keeps_setup_trans: "keeps_setup r r1 \<Longrightarrow> keeps_setup r1 r2 \<Longrightarrow> keeps_setup r r2"
  by (simp add: keeps_setup_def)

lemma keeps_setup_log_call [simp]: "keeps_setup r (log_call e r)"
  by (simp add: keeps_setup_def)

lemma keeps_setup_append_record [simp]: "keeps_setup r (append_record x r)"
  by (simp add: keeps_setup_def)

lemma no_order_activity_refl [simp]: "no_order_activity r r"
  by (simp add: no_order_activity_def)

lemma no_order_activity_trans:
  "no_order_activity r r1 \<Longrightarrow> no_order_activity r1 r2 \<Longrightarrow> no_order_activity r r2"
  by (auto simp: no_order_activity_def intro: keeps_setup_trans)

lemma no_order_activity_log:
  "\<not> is_order_call e \<Longrightarrow> no_order_activity r (log_call e r)"
  by (simp add: no_order_activity_def)

lemma klines_failover_quiet:
  "no_order_activity r (snd (klines_failover w symbol timeframe limit xs r))"
proof (induction xs arbitrary: r)
  case Nil
  show ?case by simp
next
  case (Cons a xs)
  obtain name ex where a: "a = (name, ex)" by (cases a)
  have step: "no_order_activity r (log_call (GetKlines name) r)"
    by (rule no_order_activity_log) (simp add: is_order_call_def)
  have pe: "primary_exchange (log_call (GetKlines name) r) = primary_exchange r" by simp
  show ?case
  proof (cases "name \<noteq> primary_exchange r")
    case False
    with a Cons show ?thesis by simp
  next
    case True
    show ?thesis
    proof (cases "klines_loaded w (calls r) ex symbol timeframe limit")
      case True
      with a \<open>name \<noteq> primary_exchange r\<close> step show ?thesis by (simp add: Let_def)
    next
      case False
      with a \<open>name \<noteq> primary_exchange r\<close>
      have "snd (klines_failover w symbol timeframe limit (a # xs) r)
              = snd (klines_failover w symbol timeframe limit xs (log_call (GetKlines name) r))"
        by (simp add: Let_def)
      with no_order_activity_trans [OF step Cons [of "log_call (GetKlines name) r"]]
      show ?thesis by simp
    qed
  qed
qed

lemma balance_failover_quiet:
  "no_order_activity r (snd (balance_failover w xs r))"
proof (induction xs arbitrary: r)
  case Nil
  show ?case by simp
next
  case (Cons a xs)
  obtain name ex where a: "a = (name, ex)" by (cases a)
  have step: "no_order_activity r (log_call (GetAccountBalance name) r)"
    by (rule no_order_activity_log) (simp add: is_order_call_def)
  show ?case
  proof (cases "name \<noteq> primary_exchange r")
    case False
    with a Cons show ?thesis by simp
  next
    case True
    show ?thesis
    proof (cases "balance_loaded w (calls r) ex")
      case True
      with a \<open>name \<noteq> primary_exchange r\<close> step show ?thesis by (simp add: Let_def)
    next
      case False
      with a \<open>name \<noteq> primary_exchange r\<close>
      have "snd (balance_failover w (a # xs) r)
              = snd (balance_failover w xs (log_call (GetAccountBalance name) r))"
        by (simp add: Let_def)
      with no_order_activity_trans [OF step Cons [of "log_call (GetAccountBalance name) r"]]
      show ?thesis by simp
    qed
  qed
qed

lemma update_market_data_quiet:
  "no_order_activity r (snd (update_market_data w r symbol timeframe limit))"
proof -
  let ?r0 = "log_call (GetKlines (primary_exchange r)) r"
  have step: "no_order_activity r ?r0"
    by (rule no_order_activity_log) (simp add: is_order_call_def)
  from no_order_activity_trans [OF step klines_failover_quiet [of ?r0]] step
  show ?thesis
    by (auto simp: update_market_data_def Let_def split: option.splits)
qed

lemma update_account_equity_quiet:
  "no_order_activity r (snd (update_account_equity w r))"
proof -
  let ?r0 = "log_call (GetAccountBalance (primary_exchange r)) r"
  have step: "no_order_activity r ?r0"
    by (rule no_order_activity_log) (simp add: is_order_call_def)
  from no_order_activity_trans [OF step balance_failover_quiet [of ?r0]] step
  show ?thesis
    by (auto simp: update_account_equity_def Let_def split: option.splits)
qed

lemma before_signal_quiet:
  "no_order_activity r (before_signal w r symbol timeframe)"
proof -
  let ?r1 = "snd (update_market_data w r symbol timeframe 500)"
  let ?r2 = "snd (update_account_equity w ?r1)"
  have "no_order_activity r ?r2"
    by (rule no_order_activity_trans [OF update_market_data_quiet update_account_equity_quiet])
  moreover have "no_order_activity ?r2 (log_call GenerateSignal ?r2)"
    by (rule no_order_activity_log) (simp add: is_order_call_def)
  ultimately show ?thesis
    unfolding before_signal_def by (rule no_order_activity_trans)
qed

lemma execute_strategy_dispatch:
  assumes sig: "generated_signal w r symbol timeframe = Some signal"
  shows "execute_strategy w r symbol timeframe
           = process_signal w (before_signal w r symbol timeframe) symbol signal"
proof -
  obtain ok r1 where md: "update_market_data w r symbol timeframe 500 = (ok, r1)"
    by (cases "update_market_data w r symbol timeframe 500")
  from sig md have st: "strategy r \<noteq> None" and ok: "ok"
    by (auto simp: generated_signal_def split: if_splits)
  from sig md st ok
  have s: "strategy_signal w (calls (snd (update_account_equity w r1))) = Inr signal"
    by (auto simp: generated_signal_def split: if_splits sum.splits)
  from md st ok s show ?thesis
    by (auto simp: execute_strategy_def before_signal_def Let_def)
qed

section \<open>Signals without a position\<close>

text \<open>
  C9. Take a run of \<open>execute_strategy\<close> in which a signal is generated. If the signal
  is \<open>close\<close> and the symbol has no active position, the result is a dictionary with
  status \<open>warning\<close> (no error status and no exception). The same holds for an
  \<open>update_stop\<close> signal when the symbol has no active position, and when it has one
  whose recorded stop-order id is empty. In all three cases no order call is made, no
  record is appended to the order history and the position book is unchanged.
\<close>

theorem execute_strategy_flat_is_warning:
  assumes sig: "generated_signal w r symbol timeframe = Some signal"
  shows
  "(map_of signal ''action'' = Some (PStr ''close'') \<and> map_of (active_positions r) symbol = None
      \<longrightarrow> (\<exists>res. fst (execute_strategy w r symbol timeframe) = Inr res
                 \<and> dict_get res ''status'' = PStr ''warning'')
          \<and> no_order_activity r (snd (execute_strategy w r symbol timeframe)))
   \<and> (map_of signal ''action'' = Some (PStr ''update_stop'')
       \<and> map_of (active_positions r) symbol = None
      \<longrightarrow> (\<exists>res. fst (execute_strategy w r symbol timeframe) = Inr res
                 \<and> dict_get res ''status'' = PStr ''warning'')
          \<and> no_order_activity r (snd (execute_strategy w r symbol timeframe)))
   \<and> (map_of signal ''action'' = Some (PStr ''update_stop'')
       \<and> map_of signal ''stop_loss'' = Some new_stop
       \<and> map_of (active_positions r) symbol = Some position
       \<and> \<not> truthy (pos_stop_order_id position)
      \<longrightarrow> (\<exists>res. fst (execute_strategy w r symbol timeframe) = Inr res
                 \<and> dict_get res ''status'' = PStr ''warning'')
          \<and> no_order_activity r (snd (execute_strategy w r symbol timeframe)))"
proof -
  let ?r0 = "before_signal w r symbol timeframe"
  have run: "execute_strategy w r symbol timeframe = process_signal w ?r0 symbol signal"
    by (rule execute_strategy_dispatch [OF sig])
  have quiet: "no_order_activity r ?r0" by (rule before_signal_quiet)
  then have book: "active_positions ?r0 = active_positions r"
    by (simp add: no_order_activity_def)
  have warn: "\<And>msg. dict_get (warning_result msg) ''status'' = PStr ''warning''"
    by (simp add: warning_result_def dict_get_def)
  have close: "map_of signal ''action'' = Some (PStr ''close'')
      \<Longrightarrow> map_of (active_positions r) symbol = None
      \<Longrightarrow> process_signal w ?r0 symbol signal
            = (Inr (warning_result (''No active position found for '' @ symbol)), ?r0)"
    by (simp add: process_signal_def execute_close_def book)
  have flat: "map_of signal ''action'' = Some (PStr ''update_stop'')
      \<Longrightarrow> map_of (active_positions r) symbol = None
      \<Longrightarrow> process_signal w ?r0 symbol signal
            = (Inr (warning_result (''No active position found for '' @ symbol)), ?r0)"
    by (simp add: process_signal_def execute_update_stop_def book)
  have noid: "map_of signal ''action'' = Some (PStr ''update_stop'')
      \<Longrightarrow> map_of signal ''stop_loss'' = Some new_stop
      \<Longrightarrow> map_of (active_positions r) symbol = Some position
      \<Longrightarrow> \<not> truthy (pos_stop_order_id position)
      \<Longrightarrow> process_signal w ?r0 symbol signal
            = (Inr (warning_result (''No stop order ID found for '' @ symbol)), ?r0)"
    by (simp add: process_signal_def execute_update_stop_def book)
  show ?thesis
    using close flat noid quiet warn by (simp add: run)
qed

lemma example_router_signal:
  "generated_signal (healthy_world signal) (example_router\<lparr>active_positions := book\<rparr>)
     ''BTCUSDT'' ''1h'' = Some signal"
  by (simp add: generated_signal_def update_market_data_def update_account_equity_def
        get_exchange_def name_or_primary_def example_router_eq healthy_world_def
        simple_world_def Let_def)

theorem execute_strategy_flat_is_warning_witness:
  "(\<exists>res. fst (execute_strategy (healthy_world close_signal) example_router
                  ''BTCUSDT'' ''1h'') = Inr res
          \<and> dict_get res ''status'' = PStr ''warning'')
   \<and> (\<exists>res. fst (execute_strategy (healthy_world update_stop_signal) example_router
                  ''BTCUSDT'' ''1h'') = Inr res
          \<and> dict_get res ''status'' = PStr ''warning'')
   \<and> (\<exists>res. fst (execute_strategy (healthy_world update_stop_signal) router_with_position
                  ''BTCUSDT'' ''1h'') = Inr res
          \<and> dict_get res ''status'' = PStr ''warning'')
   \<and> active_positions (snd (execute_strategy (healthy_world update_stop_signal)
                               router_with_position ''BTCUSDT'' ''1h''))
       = [(''BTCUSDT'', unprotected_position)]
   \<and> order_history (snd (execute_strategy (healthy_world close_signal) example_router
                            ''BTCUSDT'' ''1h'')) = []"
proof -
  have flat: "example_router = example_router\<lparr>active_positions := []\<rparr>"
    by (simp add: example_router_eq)
  have s1: "generated_signal (healthy_world close_signal) example_router ''BTCUSDT'' ''1h''
              = Some close_signal"
    by (subst flat) (rule example_router_signal)
  have s2: "generated_signal (healthy_world update_stop_signal) example_router
              ''BTCUSDT'' ''1h'' = Some update_stop_signal"
    by (subst flat) (rule example_router_signal)
  have s3: "generated_signal (healthy_world update_stop_signal) router_with_position
              ''BTCUSDT'' ''1h'' = Some update_stop_signal"
    unfolding router_with_position_def by (rule example_router_signal)
  have h1: "map_of close_signal ''action'' = Some (PStr ''close'')
            \<and> map_of (active_positions example_router) ''BTCUSDT'' = None"
    by (simp add: close_signal_def example_router_eq)
  have h2: "map_of update_stop_signal ''action'' = Some (PStr ''update_stop'')
            \<and> map_of (active_positions example_router) ''BTCUSDT'' = None"
    by (simp add: update_stop_signal_def example_router_eq)
  have h3: "map_of update_stop_signal ''action'' = Some (PStr ''update_stop'')
            \<and> map_of update_stop_signal ''stop_loss'' = Some (PFloat 97)
            \<and> map_of (active_positions router_with_position) ''BTCUSDT''
                = Some unprotected_position
            \<and> \<not> truthy (pos_stop_order_id unprotected_position)"
    by (simp add: update_stop_signal_def router_with_position_def unprotected_position_def)
  have b: "active_positions router_with_position = [(''BTCUSDT'', unprotected_position)]"
    "order_history example_router = []"
    by (simp_all add: router_with_position_def example_router_eq)
  from execute_strategy_flat_is_warning [OF s1] h1
       execute_strategy_flat_is_warning [OF s2] h2
       execute_strategy_flat_is_warning [OF s3, of "PFloat 97" unprotected_position] h3
  show ?thesis
    by (simp add: no_order_activity_def b)
qed

section \<open>Opening a position\<close>

lemma place_failover_frame:
  "keeps_setup r (snd (place_failover w p excl xs r))
   \<and> active_positions (snd (place_failover w p excl xs r)) = active_positions r
   \<and> (\<exists>ns. calls (snd (place_failover w p excl xs r)) = calls r @ map (\<lambda>m. PlaceOrder m p) ns)"
proof (induction xs arbitrary: r)
  case Nil
  show ?case by simp
next
  case (Cons a xs)
  obtain name ex where a: "a = (name, ex)" by (cases a)
  let ?r1 = "log_call (PlaceOrder name p) r"
  show ?case
  proof (cases "name = excl")
    case True
    with a Cons show ?thesis by simp
  next
    case False
    show ?thesis
    proof (cases "conn_place_order w (calls r) ex p")
      case (Inr resp)
      have "\<exists>ns. calls r @ [PlaceOrder name p] = calls r @ map (\<lambda>m. PlaceOrder m p) ns"
        by (rule exI [of _ "[name]"]) simp
      with a False Inr show ?thesis by (simp add: Let_def keeps_setup_def)
    next
      case (Inl e)
      with a False have eq: "place_failover w p excl (a # xs) r = place_failover w p excl xs ?r1"
        by (simp add: Let_def)
      from Cons [of ?r1] obtain ns where
        k: "keeps_setup ?r1 (snd (place_failover w p excl xs ?r1))"
        and b: "active_positions (snd (place_failover w p excl xs ?r1)) = active_positions ?r1"
        and c: "calls (snd (place_failover w p excl xs ?r1))
                  = calls ?r1 @ map (\<lambda>m. PlaceOrder m p) ns"
        by blast
      have "calls (snd (place_failover w p excl xs ?r1))
              = calls r @ map (\<lambda>m. PlaceOrder m p) (name # ns)"
        using c by simp
      then have "\<exists>ms. calls (snd (place_failover w p excl xs ?r1))
              = calls r @ map (\<lambda>m. PlaceOrder m p) ms" by (rule exI)
      moreover have "keeps_setup r (snd (place_failover w p excl xs ?r1))"
        by (rule keeps_setup_trans [OF keeps_setup_log_call k])
      ultimately show ?thesis using b by (simp add: eq)
    qed
  qed
qed

lemma place_order_frame:
  "keeps_setup r (snd (place_order w r p n))
   \<and> active_positions (snd (place_order w r p n)) = active_positions r
   \<and> (\<exists>ns. calls (snd (place_order w r p n)) = calls r @ map (\<lambda>m. PlaceOrder m p) ns)"
proof (cases "map_of (exchanges r) (name_or_primary r n)")
  case None
  let ?f = "place_failover w p (name_or_primary r n) (exchanges r) r"
  obtain fo r1 where fo: "?f = (fo, r1)" by (cases ?f)
  from place_failover_frame [of r w p "name_or_primary r n" "exchanges r"] fo
  have fr: "keeps_setup r r1 \<and> active_positions r1 = active_positions r
     \<and> (\<exists>ns. calls r1 = calls r @ map (\<lambda>m. PlaceOrder m p) ns)" by simp
  have "snd (place_order w r p n) = r1
        \<or> snd (place_order w r p n)
             = append_record (failed_place_record (time_time w (calls r1)) (name_or_primary r n) p
                 ''All exchanges failed'') r1"
    using None fo by (cases fo) (simp_all add: place_order_def get_exchange_resolved Let_def)
  with fr show ?thesis by (auto simp: keeps_setup_def)
next
  case (Some ex)
  let ?nm = "name_or_primary r n"
  let ?r0 = "log_call (PlaceOrder ?nm p) r"
  show ?thesis
  proof (cases "conn_place_order w (calls r) ex p")
    case (Inr resp)
    have "\<exists>ns. calls r @ [PlaceOrder ?nm p] = calls r @ map (\<lambda>m. PlaceOrder m p) ns"
      by (rule exI [of _ "[?nm]"]) simp
    with Some Inr show ?thesis
      by (simp add: place_order_def get_exchange_resolved Let_def keeps_setup_def)
  next
    case (Inl e)
    let ?f = "place_failover w p ?nm (exchanges r) ?r0"
    obtain fo r1 where fo: "?f = (fo, r1)" by (cases ?f)
    from place_failover_frame [of ?r0 w p ?nm "exchanges r"] fo obtain ns where
      k: "keeps_setup ?r0 r1" and b: "active_positions r1 = active_positions r"
      and c: "calls r1 = calls ?r0 @ map (\<lambda>m. PlaceOrder m p) ns" by auto
    have c': "calls r1 = calls r @ map (\<lambda>m. PlaceOrder m p) (?nm # ns)" using c by simp
    have k': "keeps_setup r r1" by (rule keeps_setup_trans [OF keeps_setup_log_call k])
    have alt: "snd (place_order w r p n) = r1
          \<or> snd (place_order w r p n)
               = append_record (failed_place_record (time_time w (calls r1)) ?nm p e) r1"
      using Some Inl fo by (cases fo) (simp_all add: place_order_def get_exchange_resolved Let_def)
    from alt c' have "calls (snd (place_order w r p n))
        = calls r @ map (\<lambda>m. PlaceOrder m p) (?nm # ns)" by auto
    then have "\<exists>ms. calls (snd (place_order w r p n)) = calls r @ map (\<lambda>m. PlaceOrder m p) ms"
      by (rule exI)
    moreover from alt k' have "keeps_setup r (snd (place_order w r p n))"
      by (auto simp: keeps_setup_def)
    moreover from alt b have "active_positions (snd (place_order w r p n)) = active_positions r"
      by auto
    ultimately show ?thesis by blast
  qed
qed


lemma filter_order_calls_place [simp]:
  "filter is_order_call (map (\<lambda>m. PlaceOrder m p) ns) = map (\<lambda>m. PlaceOrder m p) ns"
  by (induction ns) (simp_all add: is_order_call_def)

lemma filter_order_calls_cancel [simp]:
  "filter is_order_call (cancel_events r oid) = cancel_events r oid"
  by (simp add: cancel_events_def is_order_call_def split: option.splits)








section \<open>Changing the environment\<close>

lemma place_order_keeps_setup: "keeps_setup r (snd (place_order w r p n))"
  using place_order_frame [of r w p n] by simp

lemma cancel_order_keeps_setup: "keeps_setup r (snd (cancel_order w r oid n))"
proof (cases "map_of (exchanges r) (name_or_primary r n)")
  case None
  then show ?thesis by (simp add: cancel_order_def get_exchange_resolved)
next
  case (Some ex)
  then show ?thesis
    by (cases "conn_cancel_order w (calls r) ex oid")
       (simp_all add: cancel_order_def get_exchange_resolved Let_def keeps_setup_def)
qed

lemma close_positions_loop_keeps_setup:
  "keeps_setup r (snd (close_positions_loop w ps success r))"
proof (induction ps arbitrary: success r)
  case Nil
  show ?case by simp
next
  case (Cons a ps)
  obtain symbol position where a: "a = (symbol, position)" by (cases a)
  let ?nm = "Some (primary_exchange r)"
  let ?po = "place_order w r (exit_params symbol position) ?nm"
  let ?r1 = "snd ?po"
  let ?r2 = "if truthy (pos_stop_order_id position)
             then snd (cancel_order w ?r1 (pos_stop_order_id position) ?nm) else ?r1"
  let ?r3 = "?r2\<lparr>active_positions := AList.delete symbol (active_positions ?r2)\<rparr>"
  have k1: "keeps_setup r ?r1" by (rule place_order_keeps_setup)
  have k2: "keeps_setup ?r1 ?r2" by (simp add: cancel_order_keeps_setup)
  have k3: "keeps_setup ?r2 ?r3" by (simp add: keeps_setup_def)
  have k13: "keeps_setup r ?r3"
    by (rule keeps_setup_trans [OF keeps_setup_trans [OF k1 k2] k3])
  show ?case
  proof (cases "is_error (fst ?po)")
    case True
    then have "snd (close_positions_loop w (a # ps) success r)
                 = snd (close_positions_loop w ps False ?r1)"
      using a by (simp add: Let_def case_prod_unfold)
    with keeps_setup_trans [OF k1 Cons [of ?r1 False]] show ?thesis by simp
  next
    case False
    then have "snd (close_positions_loop w (a # ps) success r)
                 = snd (close_positions_loop w ps success ?r3)"
      using a by (simp add: Let_def case_prod_unfold)
    with keeps_setup_trans [OF k13 Cons [of ?r3 success]] show ?thesis by simp
  qed
qed

lemma close_all_positions_keeps_setup: "keeps_setup r (snd (close_all_positions w r))"
  by (simp add: close_all_positions_def close_positions_loop_keeps_setup)

lemma set_alist_update:
  "x \<in> set (AList.update k v al) \<Longrightarrow> x = (k, v) \<or> x \<in> set al"
  by (induction al) (auto split: if_splits)

lemma create_connector_env:
  "create_connector w env name = Inr (Some c) \<Longrightarrow> conn_env c = env"
  by (auto simp: create_connector_def Let_def split: if_splits option.splits)

lemma setup_exchanges_env:
  "setup_exchanges w env names acc = Inr built \<Longrightarrow>
   \<forall>x\<in>set acc. conn_env (snd x) = env \<Longrightarrow>
   \<forall>x\<in>set built. conn_env (snd x) = env"
proof (induction names arbitrary: acc)
  case Nil
  then show ?case by simp
next
  case (Cons n names)
  show ?case
  proof (cases "n = []")
    case True
    with Cons.prems have "setup_exchanges w env names acc = Inr built" by simp
    from Cons.IH [OF this Cons.prems(2)] show ?thesis .
  next
    case False
    show ?thesis
    proof (cases "create_connector w env n")
      case (Inl e)
      with False Cons.prems show ?thesis by simp
    next
      case (Inr made)
      show ?thesis
      proof (cases made)
        case None
        with Inr False Cons.prems have "setup_exchanges w env names acc = Inr built" by simp
        from Cons.IH [OF this Cons.prems(2)] show ?thesis .
      next
        case (Some c)
        with Inr False Cons.prems
        have run: "setup_exchanges w env names (AList.update n c acc) = Inr built" by simp
        have "conn_env c = env" using Inr Some by (simp add: create_connector_env)
        then have "\<forall>x\<in>set (AList.update n c acc). conn_env (snd x) = env"
          using Cons.prems(2) by (auto dest: set_alist_update)
        from Cons.IH [OF run this] show ?thesis .
      qed
    qed
  qed
qed

lemma should_switch_in_testnet:
  "should_switch_to_mainnet now m \<Longrightarrow> get_environment m = TESTNET"
  by (simp add: should_switch_to_mainnet_def get_environment_def split: if_splits)

lemma cancel_order_book:
  "active_positions (snd (cancel_order w r oid n)) = active_positions r"
proof (cases "map_of (exchanges r) (name_or_primary r n)")
  case None
  then show ?thesis by (simp add: cancel_order_def get_exchange_resolved)
next
  case (Some ex)
  then show ?thesis
    by (cases "conn_cancel_order w (calls r) ex oid")
       (simp_all add: cancel_order_def get_exchange_resolved Let_def)
qed

lemma place_order_book:
  "active_positions (snd (place_order w r p n)) = active_positions r"
  using place_order_frame [of r w p n] by simp

lemma alist_delete_filter: "AList.delete k al = filter (\<lambda>x. fst x \<noteq> k) al"
  by (induction al) auto

lemma close_positions_loop_drains:
  "fst (close_positions_loop w ps success r) \<Longrightarrow>
   success \<and> active_positions (snd (close_positions_loop w ps success r))
               = filter (\<lambda>x. fst x \<notin> fst ` set ps) (active_positions r)"
proof (induction ps arbitrary: success r)
  case Nil
  then show ?case by simp
next
  case (Cons a ps)
  obtain symbol position where a: "a = (symbol, position)" by (cases a)
  let ?nm = "Some (primary_exchange r)"
  let ?po = "place_order w r (exit_params symbol position) ?nm"
  let ?r1 = "snd ?po"
  let ?r2 = "if truthy (pos_stop_order_id position)
             then snd (cancel_order w ?r1 (pos_stop_order_id position) ?nm) else ?r1"
  let ?r3 = "?r2\<lparr>active_positions := AList.delete symbol (active_positions ?r2)\<rparr>"
  have b2: "active_positions ?r2 = active_positions r"
    by (simp add: cancel_order_book place_order_book)
  show ?case
  proof (cases "is_error (fst ?po)")
    case True
    then have "close_positions_loop w (a # ps) success r = close_positions_loop w ps False ?r1"
      using a by (simp add: Let_def case_prod_unfold)
    with Cons.prems have "fst (close_positions_loop w ps False ?r1)" by simp
    from Cons.IH [OF this] show ?thesis by simp
  next
    case False
    define r3 where "r3 = ?r3"
    have b3: "active_positions r3 = filter (\<lambda>x. fst x \<noteq> symbol) (active_positions r)"
      unfolding r3_def using b2 by (simp add: alist_delete_filter)
    have eq: "close_positions_loop w (a # ps) success r = close_positions_loop w ps success r3"
      unfolding r3_def using False a by (simp add: Let_def case_prod_unfold)
    with Cons.prems have "fst (close_positions_loop w ps success r3)" by simp
    from Cons.IH [OF this] have s: success
      and b: "active_positions (snd (close_positions_loop w ps success r3))
                = filter (\<lambda>x. fst x \<notin> fst ` set ps) (active_positions r3)"
      by blast+
    have "filter (\<lambda>x. fst x \<notin> fst ` set ps) (active_positions r3)
            = filter (\<lambda>x. fst x \<notin> fst ` set (a # ps)) (active_positions r)"
      unfolding b3 using a by (auto intro: filter_cong)
    with s b show ?thesis unfolding eq by simp
  qed
qed

lemma close_all_positions_drains:
  "fst (close_all_positions w r) \<Longrightarrow> active_positions (snd (close_all_positions w r)) = []"
proof (cases "active_positions r = []")
  case True
  then show ?thesis by (simp add: close_all_positions_def)
next
  case False
  assume "fst (close_all_positions w r)"
  with False have "fst (close_positions_loop w (active_positions r) True r)"
    by (simp add: close_all_positions_def)
  from close_positions_loop_drains [OF this] False show ?thesis
    by (simp add: close_all_positions_def)
qed

lemma handle_env_change_proceeds:
  assumes go: "target_env = Some target \<and> target \<noteq> get_environment (env_manager r)
     \<or> target_env = None \<and> target = MAINNET
        \<and> should_switch_to_mainnet (datetime_now w (calls r)) (env_manager r)"
  shows "handle_env_change w r target_env
           = (let r2 = switch_step w target (snd (close_all_positions w r))
              in case setup_exchanges w (get_environment (env_manager r2))
                        (config_exchanges r2) [] of
                   Inl e \<Rightarrow> (Inl e, r2)
                 | Inr new_exchanges \<Rightarrow> (Inr True, r2\<lparr>exchanges := new_exchanges\<rparr>))"
  using go should_switch_in_testnet [of "datetime_now w (calls r)" "env_manager r"]
  by (auto simp: handle_env_change_def Let_def)

text \<open>
  C4. \<open>handle_env_change\<close> returns false and leaves the router as it was when the
  target is the current environment, and when no target is given and
  \<open>should_switch_to_mainnet\<close> is false. Otherwise (a target other than the current
  environment, or no target and the criteria met, which makes MAINNET the target) it
  closes all positions, then switches the manager to the target, then rebuilds the
  connectors, whatever \<open>close_all_positions\<close> reported. The closing leaves the manager
  and the configuration alone, and empties the position book when it reports success.
  After the switch the manager is in the target environment with one more switch
  counted, its switch time read after the closing, and its configuration written once if
  the path has a directory part and the file system lets the write complete. Then the
  factory is run for the target environment on the configured names: if it completes the
  method returns true with the connectors it built, all of them for the target
  environment; if it raises, the exception leaves the method, which returns nothing, and
  the router keeps its old connectors in the new environment. So true is returned exactly
  when all three steps complete. The calls, the position book and the order history are
  those the closing left.
\<close>

theorem handle_env_change_protocol:
  "(target_env = Some (get_environment (env_manager r))
      \<longrightarrow> handle_env_change w r target_env = (Inr False, r))
   \<and> (target_env = None
       \<and> \<not> should_switch_to_mainnet (datetime_now w (calls r)) (env_manager r)
      \<longrightarrow> handle_env_change w r target_env = (Inr False, r))
   \<and> (target_env = Some target \<and> target \<noteq> get_environment (env_manager r)
       \<or> target_env = None \<and> target = MAINNET
          \<and> should_switch_to_mainnet (datetime_now w (calls r)) (env_manager r)
      \<longrightarrow> (let drained = snd (close_all_positions w r);
               switched = switch_step w target drained;
               (out, r') = handle_env_change w r target_env
           in keeps_setup r drained
              \<and> (fst (close_all_positions w r) \<longrightarrow> active_positions drained = [])
              \<and> get_environment (env_manager switched) = target
              \<and> ENV_SWITCH_TOTAL (env_manager switched)
                  = ENV_SWITCH_TOTAL (env_manager r) + 1
              \<and> last_switch_time (env_manager switched) = datetime_now w (calls drained)
              \<and> config_writes (env_manager switched)
                  = (if config_writable w (calls drained)
                        \<and> dirname (config_path (settings (env_manager r))) \<noteq> []
                     then config_writes (env_manager r)
                          @ [config_dump ((env_manager r)
                               \<lparr>settings := (settings (env_manager r))
                                               \<lparr>environment := target\<rparr>\<rparr>)]
                     else config_writes (env_manager r))
              \<and> exchanges switched = exchanges r
              \<and> calls switched = calls drained
              \<and> active_positions switched = active_positions drained
              \<and> order_history switched = order_history drained
              \<and> (case setup_exchanges w target (config_exchanges r) [] of
                    Inr new_exchanges \<Rightarrow>
                      out = Inr True \<and> r' = switched\<lparr>exchanges := new_exchanges\<rparr>
                      \<and> (\<forall>x\<in>set new_exchanges. conn_env (snd x) = target)
                  | Inl e \<Rightarrow> out = Inl e \<and> r' = switched)
              \<and> (out = Inr True
                    \<longleftrightarrow> \<not> isl (setup_exchanges w target (config_exchanges r) []))))"
proof (intro conjI impI)
  assume "target_env = Some (get_environment (env_manager r))"
  then show "handle_env_change w r target_env = (Inr False, r)"
    by (simp add: handle_env_change_def Let_def)
next
  assume "target_env = None
       \<and> \<not> should_switch_to_mainnet (datetime_now w (calls r)) (env_manager r)"
  then show "handle_env_change w r target_env = (Inr False, r)"
    by (simp add: handle_env_change_def Let_def)
next
  assume go: "target_env = Some target \<and> target \<noteq> get_environment (env_manager r)
       \<or> target_env = None \<and> target = MAINNET
          \<and> should_switch_to_mainnet (datetime_now w (calls r)) (env_manager r)"
  define drained where "drained = snd (close_all_positions w r)"
  define switched where "switched = switch_step w target drained"
  define built where "built = setup_exchanges w target (config_exchanges r) []"
  have kd: "keeps_setup r drained"
    unfolding drained_def by (rule close_all_positions_keeps_setup)
  then have md: "env_manager drained = env_manager r"
    and cd: "config_exchanges drained = config_exchanges r"
    and xd: "exchanges drained = exchanges r"
    by (simp_all add: keeps_setup_def)
  have empty: "fst (close_all_positions w r) \<longrightarrow> active_positions drained = []"
    unfolding drained_def by (simp add: close_all_positions_drains)
  have ne: "environment (settings (env_manager r)) \<noteq> target"
    using go should_switch_in_testnet [of "datetime_now w (calls r)" "env_manager r"]
    by (auto simp: get_environment_def)
  have ms: "env_manager switched
              = set_environment (datetime_now w (calls drained))
                  (config_writable w (calls drained)) target True (env_manager r)"
    using ne by (simp add: switched_def switch_step_def switch_environment_def md Let_def)
  have env: "get_environment (env_manager switched) = target"
    by (simp add: ms set_environment_def save_config_def get_environment_def Let_def)
  have cnt: "ENV_SWITCH_TOTAL (env_manager switched) = ENV_SWITCH_TOTAL (env_manager r) + 1"
    by (simp add: ms set_environment_def save_config_def Let_def)
  have tim: "last_switch_time (env_manager switched) = datetime_now w (calls drained)"
    by (simp add: ms set_environment_def save_config_def Let_def)
  have wri: "config_writes (env_manager switched)
                  = (if config_writable w (calls drained)
                        \<and> dirname (config_path (settings (env_manager r))) \<noteq> []
                     then config_writes (env_manager r)
                          @ [config_dump ((env_manager r)
                               \<lparr>settings := (settings (env_manager r))
                                               \<lparr>environment := target\<rparr>\<rparr>)]
                     else config_writes (env_manager r))"
    by (simp add: ms set_environment_def save_config_def config_dump_def Let_def)
  have rest: "exchanges switched = exchanges r" "calls switched = calls drained"
    "active_positions switched = active_positions drained"
    "order_history switched = order_history drained"
    "config_exchanges switched = config_exchanges r"
    by (simp_all add: switched_def switch_step_def xd cd)
  have run: "handle_env_change w r target_env
               = (case built of
                    Inl e \<Rightarrow> (Inl e, switched)
                  | Inr new_exchanges \<Rightarrow> (Inr True, switched\<lparr>exchanges := new_exchanges\<rparr>))"
  proof -
    have "handle_env_change w r target_env
            = (case setup_exchanges w (get_environment (env_manager switched))
                      (config_exchanges switched) [] of
                 Inl e \<Rightarrow> (Inl e, switched)
               | Inr new_exchanges \<Rightarrow> (Inr True, switched\<lparr>exchanges := new_exchanges\<rparr>))"
      unfolding switched_def drained_def
      using handle_env_change_proceeds [OF go] by (simp add: Let_def)
    then show ?thesis by (simp only: env rest(5) built_def)
  qed
  have outcome: "(case built of
                    Inr new_exchanges \<Rightarrow>
                      fst (handle_env_change w r target_env) = Inr True
                      \<and> snd (handle_env_change w r target_env)
                          = switched\<lparr>exchanges := new_exchanges\<rparr>
                      \<and> (\<forall>x\<in>set new_exchanges. conn_env (snd x) = target)
                  | Inl e \<Rightarrow> fst (handle_env_change w r target_env) = Inl e
                      \<and> snd (handle_env_change w r target_env) = switched)
              \<and> (fst (handle_env_change w r target_env) = Inr True \<longleftrightarrow> \<not> isl built)"
  proof (cases built)
    case (Inl e)
    then show ?thesis by (simp add: run)
  next
    case (Inr new_exchanges)
    then have "setup_exchanges w target (config_exchanges r) [] = Inr new_exchanges"
      by (simp add: built_def)
    from setup_exchanges_env [OF this]
    have "\<forall>x\<in>set new_exchanges. conn_env (snd x) = target" by simp
    with Inr show ?thesis by (simp add: run)
  qed
  show "let drained = snd (close_all_positions w r);
               switched = switch_step w target drained;
               (out, r') = handle_env_change w r target_env
           in keeps_setup r drained
              \<and> (fst (close_all_positions w r) \<longrightarrow> active_positions drained = [])
              \<and> get_environment (env_manager switched) = target
              \<and> ENV_SWITCH_TOTAL (env_manager switched)
                  = ENV_SWITCH_TOTAL (env_manager r) + 1
              \<and> last_switch_time (env_manager switched) = datetime_now w (calls drained)
              \<and> config_writes (env_manager switched)
                  = (if config_writable w (calls drained)
                        \<and> dirname (config_path (settings (env_manager r))) \<noteq> []
                     then config_writes (env_manager r)
                          @ [config_dump ((env_manager r)
                               \<lparr>settings := (settings (env_manager r))
                                               \<lparr>environment := target\<rparr>\<rparr>)]
                     else config_writes (env_manager r))
              \<and> exchanges switched = exchanges r
              \<and> calls switched = calls drained
              \<and> active_positions switched = active_positions drained
              \<and> order_history switched = order_history drained
              \<and> (case setup_exchanges w target (config_exchanges r) [] of
                    Inr new_exchanges \<Rightarrow>
                      out = Inr True \<and> r' = switched\<lparr>exchanges := new_exchanges\<rparr>
                      \<and> (\<forall>x\<in>set new_exchanges. conn_env (snd x) = target)
                  | Inl e \<Rightarrow> out = Inl e \<and> r' = switched)
              \<and> (out = Inr True
                    \<longleftrightarrow> \<not> isl (setup_exchanges w target (config_exchanges r) []))"
    unfolding Let_def case_prod_unfold
    unfolding drained_def [symmetric] switched_def [symmetric] built_def [symmetric]
    using kd empty env cnt tim wri rest(1-4) outcome by blast
qed

lemma two_exchange_router_eq:
  "two_exchange_router =
    \<lparr>config_exchanges = [''bybit'', ''okx''],
     env_manager = example_manager\<lparr>trade_count := 0, max_drawdown_pct := 0\<rparr>,
     exchanges =
       [(''bybit'', \<lparr>conn_exchange = ''bybit'', conn_env = TESTNET\<rparr>),
        (''okx'', \<lparr>conn_exchange = ''okx'', conn_env = TESTNET\<rparr>)],
     primary_exchange = ''bybit'', strategy = Some ''trend_rsi'',
     active_positions = [(''BTCUSDT'', unprotected_position)], order_history = [],
     total_trades = 0, router_current_equity = 0, router_peak_equity = 0,
     router_max_drawdown_pct = 0, calls = []\<rparr>"
  by (simp add: two_exchange_router_def router_with_position_def example_router_eq)

lemma setup_two_exchanges:
  "okx_init w MAINNET = None \<Longrightarrow>
   setup_exchanges w MAINNET [''bybit'', ''okx''] []
     = Inr [(''bybit'', \<lparr>conn_exchange = ''bybit'', conn_env = MAINNET\<rparr>),
            (''okx'', \<lparr>conn_exchange = ''okx'', conn_env = MAINNET\<rparr>)]"
  by (simp add: create_connector_def lower_def lower_char_def Let_def)

lemma setup_with_binance:
  "okx_init w MAINNET = None \<Longrightarrow>
   setup_exchanges w MAINNET [''bybit'', ''okx'', ''binance''] []
     = Inl (TypeError ''__init__() got an unexpected keyword argument base_url'')"
  by (simp add: create_connector_def lower_def lower_char_def Let_def)

theorem handle_env_change_protocol_witness:
  "handle_env_change all_down_world example_router (Some TESTNET) = (Inr False, example_router)
   \<and> handle_env_change all_down_world example_router None = (Inr False, example_router)
   \<and> \<not> fst (close_all_positions all_down_world two_exchange_router)
   \<and> fst (handle_env_change all_down_world two_exchange_router (Some MAINNET)) = Inr True
   \<and> get_environment (env_manager (snd (handle_env_change all_down_world two_exchange_router
                                            (Some MAINNET)))) = MAINNET
   \<and> ENV_SWITCH_TOTAL (env_manager (snd (handle_env_change all_down_world
                                            two_exchange_router (Some MAINNET)))) = 1
   \<and> map (\<lambda>x. conn_env (snd x))
         (exchanges (snd (handle_env_change all_down_world two_exchange_router
                            (Some MAINNET)))) = [MAINNET, MAINNET]
   \<and> fst (close_all_positions (healthy_world close_signal) two_exchange_router)
   \<and> fst (handle_env_change (healthy_world close_signal) two_exchange_router (Some MAINNET))
       = Inr True
   \<and> active_positions (snd (handle_env_change (healthy_world close_signal)
                               two_exchange_router (Some MAINNET))) = []
   \<and> fst (handle_env_change all_down_world router_with_position (Some MAINNET))
       = Inl (TypeError ''__init__() got an unexpected keyword argument base_url'')
   \<and> get_environment (env_manager (snd (handle_env_change all_down_world router_with_position
                                            (Some MAINNET)))) = MAINNET
   \<and> map (\<lambda>x. conn_env (snd x))
         (exchanges (snd (handle_env_change all_down_world router_with_position
                            (Some MAINNET)))) = [TESTNET, TESTNET, TESTNET]
   \<and> fst (handle_env_change all_down_world promotable_router None) = Inr True
   \<and> get_environment (env_manager (snd (handle_env_change all_down_world promotable_router
                                            None))) = MAINNET"
proof -
  have now: "\<And>h. datetime_now all_down_world h = hours_us 72"
    by (simp add: all_down_world_def simple_world_def)
  have okx: "okx_init all_down_world MAINNET = None"
    "okx_init (healthy_world close_signal) MAINNET = None"
    by (simp_all add: all_down_world_def healthy_world_def simple_world_def)
  have ha: "Some TESTNET = Some (get_environment (env_manager example_router))"
    by (simp add: example_router_eq example_manager_def get_environment_def)
  have hb: "\<not> should_switch_to_mainnet (datetime_now all_down_world (calls example_router))
               (env_manager example_router)"
    by (simp add: now example_router_eq example_manager_def should_switch_to_mainnet_def)
  have hc: "MAINNET \<noteq> get_environment (env_manager two_exchange_router)"
    by (simp add: two_exchange_router_eq example_manager_def get_environment_def)
  have he: "MAINNET \<noteq> get_environment (env_manager router_with_position)"
    by (simp add: router_with_position_def example_router_eq example_manager_def
          get_environment_def)
  have hf: "should_switch_to_mainnet (datetime_now all_down_world (calls promotable_router))
               (env_manager promotable_router)"
    by (simp add: now promotable_router_def example_manager_def should_switch_to_mainnet_def
          hours_us_def timedelta_hours_def)
  have stuck: "\<not> fst (close_all_positions all_down_world two_exchange_router)"
    by (simp add: close_all_positions_def two_exchange_router_eq
          unprotected_position_def place_order_def get_exchange_def name_or_primary_def
          all_down_world_def simple_world_def Let_def log_call_def append_record_def
          is_error_def dict_get_def error_result_def exit_params_def)
  have closed: "fst (close_all_positions (healthy_world close_signal) two_exchange_router)"
    by (simp add: close_all_positions_def two_exchange_router_eq
          unprotected_position_def place_order_def get_exchange_def name_or_primary_def
          healthy_world_def simple_world_def Let_def log_call_def append_record_def
          is_error_def dict_get_def order_ok_def exit_params_def)
  have cfg: "config_exchanges two_exchange_router = [''bybit'', ''okx'']"
    "config_exchanges promotable_router = [''bybit'', ''okx'']"
    "config_exchanges router_with_position = [''bybit'', ''okx'', ''binance'']"
    "ENV_SWITCH_TOTAL (env_manager two_exchange_router) = 0"
    "map (\<lambda>x. conn_env (snd x)) (exchanges router_with_position) = [TESTNET, TESTNET, TESTNET]"
    by (simp_all add: two_exchange_router_eq promotable_router_def router_with_position_def
          example_router_eq example_manager_def)
  note A = handle_env_change_protocol
             [where target_env = "Some TESTNET" and r = example_router and w = all_down_world]
  note B = handle_env_change_protocol
             [where target_env = None and r = example_router and w = all_down_world]
  note C = handle_env_change_protocol
             [where target_env = "Some MAINNET" and r = two_exchange_router
                and w = all_down_world and target = MAINNET,
              unfolded Let_def case_prod_unfold cfg(1) setup_two_exchanges [OF okx(1)]
                sum.case]
  note D = handle_env_change_protocol
             [where target_env = "Some MAINNET" and r = two_exchange_router
                and w = "healthy_world close_signal" and target = MAINNET,
              unfolded Let_def case_prod_unfold cfg(1) setup_two_exchanges [OF okx(2)]
                sum.case]
  note E = handle_env_change_protocol
             [where target_env = "Some MAINNET" and r = router_with_position
                and w = all_down_world and target = MAINNET,
              unfolded Let_def case_prod_unfold cfg(3) setup_with_binance [OF okx(1)]
                sum.case]
  note F = handle_env_change_protocol
             [where target_env = None and r = promotable_router
                and w = all_down_world and target = MAINNET,
              unfolded Let_def case_prod_unfold cfg(2) setup_two_exchanges [OF okx(1)]
                sum.case]
  from A ha have a: "handle_env_change all_down_world example_router (Some TESTNET)
                       = (Inr False, example_router)" by blast
  from B hb have b: "handle_env_change all_down_world example_router None
                       = (Inr False, example_router)" by blast
  from C hc have c:
    "fst (handle_env_change all_down_world two_exchange_router (Some MAINNET)) = Inr True
     \<and> get_environment (env_manager (snd (handle_env_change all_down_world two_exchange_router
                                            (Some MAINNET)))) = MAINNET
     \<and> ENV_SWITCH_TOTAL (env_manager (snd (handle_env_change all_down_world
                                            two_exchange_router (Some MAINNET)))) = 1
     \<and> map (\<lambda>x. conn_env (snd x))
         (exchanges (snd (handle_env_change all_down_world two_exchange_router
                            (Some MAINNET)))) = [MAINNET, MAINNET]"
    by (simp add: cfg(4,5))
  from D hc closed have d:
    "fst (handle_env_change (healthy_world close_signal) two_exchange_router (Some MAINNET))
       = Inr True
     \<and> active_positions (snd (handle_env_change (healthy_world close_signal)
                               two_exchange_router (Some MAINNET))) = []"
    by (simp add: cfg(4,5))
  from E he have e:
    "fst (handle_env_change all_down_world router_with_position (Some MAINNET))
       = Inl (TypeError ''__init__() got an unexpected keyword argument base_url'')
     \<and> get_environment (env_manager (snd (handle_env_change all_down_world router_with_position
                                            (Some MAINNET)))) = MAINNET
     \<and> map (\<lambda>x. conn_env (snd x))
         (exchanges (snd (handle_env_change all_down_world router_with_position
                            (Some MAINNET)))) = [TESTNET, TESTNET, TESTNET]"
    by (simp add: cfg(4,5))
  from F hf have f:
    "fst (handle_env_change all_down_world promotable_router None) = Inr True
     \<and> get_environment (env_manager (snd (handle_env_change all_down_world promotable_router
                                            None))) = MAINNET"
    by (simp add: cfg(4,5))
  from a b c d e f stuck closed show ?thesis by simp
qed

end
